theory Spec2Isabelle
  imports Complex_Main "HOL-Library.AList" "HOL-Library.Multiset"
begin

section \<open>Village simulation: needs, inventories, trade, families, metrics\<close>

text \<open>
  Python's \<open>float\<close> is the IEEE 754 double; a float is modelled by the real number it
  denotes. Most functions below compute with exact arithmetic: what is proved of them are
  comparisons, clamps, selections and the shape of the data, which do not depend on how an
  arithmetic result is rounded. Where a property is about the value that an arithmetic
  expression yields (the capacity check of \<open>Inventory.add\<close>, the Gini coefficient), the
  function is modelled with every arithmetic operation rounded to the nearest double.
  Python's \<open>int\<close> is \<open>int\<close>, \<open>str\<close> is \<open>string\<close>, an insertion-ordered
  \<open>dict\<close> is an association list with distinct keys in insertion order.
\<close>

subsection \<open>Python floats: IEEE 754 double arithmetic\<close>

text \<open>
  \<open>pow2 e\<close> is 2 to the power \<open>e\<close>. \<open>expo x\<close> is the binary exponent of a double
  with value near \<open>x\<close>: the \<open>e\<close> with \<open>2^e \<le> |x| < 2^(e+1)\<close>, found by halving or
  doubling, and not below -1022, the exponent of the subnormal doubles.
\<close>

definition pow2 :: "int \<Rightarrow> real" where
  "pow2 e = (if 0 \<le> e then 2 ^ nat e else 1 / 2 ^ nat (- e))"

fun expo_up :: "nat \<Rightarrow> real \<Rightarrow> int" where
  "expo_up 0 x = 0"
| "expo_up (Suc n) x = (if x < 2 then 0 else expo_up n (x / 2) + 1)"

fun expo_down :: "nat \<Rightarrow> real \<Rightarrow> int" where
  "expo_down 0 x = 0"
| "expo_down (Suc n) x = (if 1 \<le> x then 0 else expo_down n (x * 2) - 1)"

definition expo :: "real \<Rightarrow> int" where
  "expo x = (if 1 \<le> \<bar>x\<bar> then expo_up 1023 \<bar>x\<bar> else expo_down 1022 \<bar>x\<bar>)"

text \<open>Rounding to the nearest integer, a tie going to the even one.\<close>

definition rne :: "real \<Rightarrow> int" where
  "rne y = (let f = \<lfloor>y\<rfloor>; d = y - of_int f
            in if d < 1 / 2 then f
               else if 1 / 2 < d then f + 1
               else if even f then f else f + 1)"

text \<open>
  \<open>fl x\<close> is the double nearest to \<open>x\<close> (53 significant bits, ties to even). Results
  of magnitude \<open>2^1024\<close> or more, which the hardware turns into infinities, and NaN are
  outside the model.
\<close>

definition fl :: "real \<Rightarrow> real" where
  "fl x = (let e = expo x in of_int (rne (x * pow2 (52 - e))) * pow2 (e - 52))"

text \<open>
  The float operations \<open>+\<close>, \<open>-\<close>, \<open>*\<close>, \<open>/\<close> of Python, and the builtin
  \<open>sum\<close>, which adds from the left starting at 0. (CPython 3.12 and later carry a
  compensation term through \<open>sum\<close>; for one or two summands, as in the evaluations
  below, the result is the same correctly rounded sum.)
\<close>

definition fadd :: "real \<Rightarrow> real \<Rightarrow> real" where "fadd a b = fl (a + b)"

definition fsub :: "real \<Rightarrow> real \<Rightarrow> real" where "fsub a b = fl (a - b)"

definition fmul :: "real \<Rightarrow> real \<Rightarrow> real" where "fmul a b = fl (a * b)"

definition fdiv :: "real \<Rightarrow> real \<Rightarrow> real" where "fdiv a b = fl (a / b)"

definition py_sum :: "real list \<Rightarrow> real" where
  "py_sum xs = foldl fadd 0 xs"

subsection \<open>agents/needs.py\<close>

text \<open>The dataclass \<open>Need\<close>.\<close>

record Need =
  name :: string
  satisfaction :: real
  decay_rate :: real
  weight :: real
  urgency_curve :: string

text \<open>\<open>Need.decay\<close>: subtract, then clamp from below only.\<close>

definition decay :: "Need \<Rightarrow> real \<Rightarrow> Need" where
  "decay n modifier =
     (let n1 = n\<lparr>satisfaction := satisfaction n - decay_rate n * modifier\<rparr>
      in n1\<lparr>satisfaction := max 0 (satisfaction n1)\<rparr>)"

text \<open>\<open>Need.satisfy\<close>: add, then clamp from above only.\<close>

definition satisfy :: "Need \<Rightarrow> real \<Rightarrow> Need" where
  "satisfy n amount = n\<lparr>satisfaction := min 1 (satisfaction n + amount)\<rparr>"

text \<open>Constants of core/config.py used by the need system.\<close>

definition HUNGER_DECAY_RATE :: real where "HUNGER_DECAY_RATE = 35 / 100"
definition THIRST_DECAY_RATE :: real where "THIRST_DECAY_RATE = 50 / 100"
definition SHELTER_DECAY_RATE :: real where "SHELTER_DECAY_RATE = 5 / 100"
definition WARMTH_DECAY_RATE :: real where "WARMTH_DECAY_RATE = 10 / 100"
definition SAFETY_DECAY_RATE :: real where "SAFETY_DECAY_RATE = 2 / 100"
definition SOCIAL_DECAY_RATE :: real where "SOCIAL_DECAY_RATE = 5 / 100"
definition REST_DECAY_RATE :: real where "REST_DECAY_RATE = 30 / 100"
definition PURPOSE_DECAY_RATE :: real where "PURPOSE_DECAY_RATE = 1 / 100"
definition COMFORT_DECAY_RATE :: real where "COMFORT_DECAY_RATE = 3 / 100"

definition mk_need :: "string \<Rightarrow> real \<Rightarrow> real \<Rightarrow> real \<Rightarrow> string \<Rightarrow> Need" where
  "mk_need nm s d w c =
     \<lparr>name = nm, satisfaction = s, decay_rate = d, weight = w, urgency_curve = c\<rparr>"

text \<open>
  \<open>NeedSystem\<close>: the dict \<open>needs\<close>, in the insertion order of \<open>__init__\<close>, with the
  weights of \<open>NEED_WEIGHTS\<close>.
\<close>

type_synonym NeedSystem = "(string \<times> Need) list"

definition NeedSystem_init :: NeedSystem where
  "NeedSystem_init =
     [(''hunger'', mk_need ''hunger'' 1 HUNGER_DECAY_RATE 10 ''exponential''),
      (''thirst'', mk_need ''thirst'' 1 THIRST_DECAY_RATE 12 ''exponential''),
      (''rest'', mk_need ''rest'' 1 REST_DECAY_RATE 8 ''exponential''),
      (''warmth'', mk_need ''warmth'' 1 WARMTH_DECAY_RATE 7 ''exponential''),
      (''shelter'', mk_need ''shelter'' 1 SHELTER_DECAY_RATE 5 ''linear''),
      (''safety'', mk_need ''safety'' 1 SAFETY_DECAY_RATE 6 ''linear''),
      (''health'', mk_need ''health'' 1 0 9 ''exponential''),
      (''social'', mk_need ''social'' 1 SOCIAL_DECAY_RATE 3 ''linear''),
      (''purpose'', mk_need ''purpose'' 1 PURPOSE_DECAY_RATE 2 ''linear''),
      (''comfort'', mk_need ''comfort'' (1 / 2) COMFORT_DECAY_RATE 1 ''linear'')]"

text \<open>\<open>NeedSystem.satisfy\<close>: a name that is not a key is ignored.\<close>

fun ns_satisfy :: "NeedSystem \<Rightarrow> string \<Rightarrow> real \<Rightarrow> NeedSystem" where
  "ns_satisfy [] need_name amount = []"
| "ns_satisfy ((k, n) # rest) need_name amount =
     (if k = need_name then (k, satisfy n amount) # rest
      else (k, n) # ns_satisfy rest need_name amount)"

text \<open>
  \<open>NeedSystem.daily_decay\<close>: the modifier of each need by its name; \<open>health\<close> is skipped
  (\<open>continue\<close>).
\<close>

definition daily_modifier :: "string \<Rightarrow> real \<Rightarrow> real \<Rightarrow> bool \<Rightarrow> bool \<Rightarrow> real option" where
  "daily_modifier nm warmth_modifier shelter_quality had_social_interaction was_productive =
     (if nm = ''warmth'' then Some (warmth_modifier * max (3 / 10) (1 - shelter_quality * (7 / 10)))
      else if nm = ''shelter'' then Some (max (1 / 10) (1 - shelter_quality))
      else if nm = ''social'' then Some (if had_social_interaction then 0 else 1)
      else if nm = ''purpose'' then Some (if was_productive then 0 else 1)
      else if nm = ''health'' then None
      else Some 1)"

definition daily_decay :: "NeedSystem \<Rightarrow> real \<Rightarrow> real \<Rightarrow> bool \<Rightarrow> bool \<Rightarrow> NeedSystem" where
  "daily_decay ns warmth_modifier shelter_quality had_social_interaction was_productive =
     map (\<lambda>(k, n).
            case daily_modifier k warmth_modifier shelter_quality
                   had_social_interaction was_productive of
              None \<Rightarrow> (k, n)
            | Some m \<Rightarrow> (k, decay n m)) ns"

text \<open>Reading \<open>needs[name].satisfaction\<close>; a missing key raises \<open>KeyError\<close>.\<close>

definition need_satisfaction :: "NeedSystem \<Rightarrow> string \<Rightarrow> real option" where
  "need_satisfaction ns nm = map_option satisfaction (map_of ns nm)"

text \<open>
  The disease event of simulation/events.py (\<open>EventSystem.apply_events\<close>) calls
  \<open>v.needs.satisfy("health", -health_damage / 100.0)\<close>, with \<open>health_damage\<close> drawn from
  \<open>uniform(10, 30)\<close>.
\<close>

definition disease_hit :: "NeedSystem \<Rightarrow> real \<Rightarrow> NeedSystem" where
  "disease_hit ns health_damage = ns_satisfy ns ''health'' (- health_damage / 100)"

subsection \<open>economy/inventory.py\<close>

text \<open>
  An entry of \<open>ITEM_CATALOG\<close>. Every entry of the source has \<open>weight\<close> and
  \<open>perishable\<close>; the other keys are optional.
\<close>

record CatalogEntry =
  c_weight :: real
  c_perishable :: bool
  c_perish_days :: "int option"
  c_food_value :: "real option"
  c_tool_type :: "string option"
  c_max_durability :: "real option"
  c_warmth_value :: "real option"
  c_heal_value :: "real option"

definition entry :: "real \<Rightarrow> bool \<Rightarrow> CatalogEntry" where
  "entry w p = \<lparr>c_weight = w, c_perishable = p, c_perish_days = None, c_food_value = None,
     c_tool_type = None, c_max_durability = None, c_warmth_value = None, c_heal_value = None\<rparr>"

definition food_entry :: "real \<Rightarrow> int \<Rightarrow> real \<Rightarrow> CatalogEntry" where
  "food_entry w d f = (entry w True)\<lparr>c_perish_days := Some d, c_food_value := Some f\<rparr>"

definition tool_entry :: "real \<Rightarrow> string \<Rightarrow> real \<Rightarrow> CatalogEntry" where
  "tool_entry w t m = (entry w False)\<lparr>c_tool_type := Some t, c_max_durability := Some m\<rparr>"

definition ITEM_CATALOG :: "(string \<times> CatalogEntry) list" where
  "ITEM_CATALOG =
     [(''berries'', food_entry (1 / 2) 5 (1 / 2)),
      (''raw_meat'', food_entry 2 3 1),
      (''cooked_meat'', food_entry (3 / 2) 7 (3 / 2)),
      (''dried_meat'', food_entry 1 60 (12 / 10)),
      (''grain'', food_entry 1 180 (8 / 10)),
      (''bread'', food_entry (1 / 2) 5 1),
      (''fish'', food_entry (3 / 2) 2 1),
      (''dried_fish'', food_entry (8 / 10) 90 1),
      (''vegetables'', food_entry 1 10 (1 / 2)),
      (''timber'', entry 10 False),
      (''stone'', entry 15 False),
      (''clay'', entry 5 False),
      (''iron_ore'', entry 12 False),
      (''plant_fiber'', entry (1 / 2) False),
      (''animal_hide'', (entry 3 True)\<lparr>c_perish_days := Some 30\<rparr>),
      (''tanned_leather'', entry 2 False),
      (''firewood'', entry 5 False),
      (''stone_axe'', tool_entry 2 ''axe'' 50),
      (''stone_knife'', tool_entry (1 / 2) ''knife'' 40),
      (''wooden_spear'', tool_entry 2 ''spear'' 30),
      (''fishing_rod'', tool_entry 1 ''fishing'' 40),
      (''bow'', tool_entry (3 / 2) ''ranged'' 60),
      (''arrows'', (entry (1 / 10) False)\<lparr>c_tool_type := Some ''ammo''\<rparr>),
      (''hoe'', tool_entry (5 / 2) ''farming'' 50),
      (''hammer'', tool_entry 3 ''construction'' 70),
      (''pickaxe'', tool_entry 4 ''mining'' 60),
      (''rope'', entry 1 False),
      (''basket'', entry (1 / 2) False),
      (''clay_pot'', entry 2 False),
      (''cloth'', entry (1 / 2) False),
      (''clothing'', (entry 1 False)\<lparr>c_warmth_value := Some (3 / 10)\<rparr>),
      (''medicine'', (entry (2 / 10) True)\<lparr>c_perish_days := Some 30, c_heal_value := Some (3 / 10)\<rparr>)]"

text \<open>\<open>ITEM_CATALOG.get(item_type, {})\<close>: \<open>None\<close> stands for the empty dict.\<close>

definition catalog_get :: "string \<Rightarrow> CatalogEntry option" where
  "catalog_get item_type = map_of ITEM_CATALOG item_type"

text \<open>\<open>food_items()\<close>: the item types that have a \<open>food_value\<close>, in catalog order.\<close>

definition food_items :: "string list" where
  "food_items = map fst (filter (\<lambda>(k, v). c_food_value v \<noteq> None) ITEM_CATALOG)"

definition get_tool_type :: "string \<Rightarrow> string option" where
  "get_tool_type item_type =
     (case catalog_get item_type of None \<Rightarrow> None | Some c \<Rightarrow> c_tool_type c)"

text \<open>The dataclass \<open>Item\<close> and its properties.\<close>

record Item =
  item_type :: string
  quantity :: real
  quality :: real
  days_since_created :: int
  current_durability :: real
  max_durability :: real

definition weight_per_unit :: "Item \<Rightarrow> real" where
  "weight_per_unit i = (case catalog_get (item_type i) of None \<Rightarrow> 1 | Some c \<Rightarrow> c_weight c)"

definition item_total_weight :: "Item \<Rightarrow> real" where
  "item_total_weight i = quantity i * weight_per_unit i"

definition food_value :: "Item \<Rightarrow> real" where
  "food_value i =
     (case catalog_get (item_type i) of None \<Rightarrow> 0
      | Some c \<Rightarrow> (case c_food_value c of None \<Rightarrow> 0 | Some f \<Rightarrow> f))"

definition is_tool :: "Item \<Rightarrow> bool" where
  "is_tool i = (case catalog_get (item_type i) of None \<Rightarrow> False | Some c \<Rightarrow> c_tool_type c \<noteq> None)"

definition tool_type :: "Item \<Rightarrow> string option" where
  "tool_type i = get_tool_type (item_type i)"

definition tool_quality :: "Item \<Rightarrow> real" where
  "tool_quality i =
     (if \<not> is_tool i \<or> max_durability i = 0 then quality i
      else quality i * (current_durability i / max_durability i))"

text \<open>\<open>create_item\<close>, and the \<open>Item(...)\<close> constructor with its defaults.\<close>

definition create_item :: "string \<Rightarrow> real \<Rightarrow> real \<Rightarrow> Item" where
  "create_item t qty ql =
     (let max_dur = (case catalog_get t of None \<Rightarrow> 0
                     | Some c \<Rightarrow> (case c_max_durability c of None \<Rightarrow> 0 | Some m \<Rightarrow> m))
      in \<lparr>item_type = t, quantity = qty, quality = ql, days_since_created = 0,
          current_durability = max_dur, max_durability = max_dur\<rparr>)"

definition new_item :: "string \<Rightarrow> real \<Rightarrow> real \<Rightarrow> Item" where
  "new_item t qty ql = \<lparr>item_type = t, quantity = qty, quality = ql, days_since_created = 0,
     current_durability = 0, max_durability = 0\<rparr>"

text \<open>
  The class \<open>Inventory\<close>: the dict \<open>items\<close> from item type to its list of stacks, the
  capacity and the owner type.
\<close>

record Inventory =
  items :: "(string \<times> Item list) list"
  capacity :: real
  owner_type :: string

definition Inventory_init :: "real \<Rightarrow> string \<Rightarrow> Inventory" where
  "Inventory_init cap ot = \<lparr>items = [], capacity = cap, owner_type = ot\<rparr>"

definition total_of :: "Inventory \<Rightarrow> string \<Rightarrow> real" where
  "total_of iv t =
     (case map_of (items iv) t of None \<Rightarrow> 0 | Some stacks \<Rightarrow> sum_list (map quantity stacks))"

definition total_weight :: "Inventory \<Rightarrow> real" where
  "total_weight iv = sum_list (map item_total_weight (concat (map snd (items iv))))"

definition has :: "Inventory \<Rightarrow> string \<Rightarrow> real \<Rightarrow> bool" where
  "has iv t min_quantity = (total_of iv t \<ge> min_quantity)"

text \<open>
  The merge loop of \<open>Inventory.add\<close>: the first stack of similar quality absorbs the
  quantity of a non-tool item; when no stack does, the item is appended.
\<close>

fun merge_stacks :: "Item list \<Rightarrow> Item \<Rightarrow> Item list" where
  "merge_stacks [] item = [item]"
| "merge_stacks (existing # rest) item =
     (if \<bar>quality existing - quality item\<bar> < 5 / 100 \<and> \<not> is_tool item
      then existing\<lparr>quantity := quantity existing + quantity item\<rparr> # rest
      else existing # merge_stacks rest item)"

text \<open>
  \<open>Inventory.add\<close>, returning the result flag and the inventory after the call. In the
  overflow branch the quantity of the item is overwritten before it is stored.
\<close>

definition add :: "Inventory \<Rightarrow> Item \<Rightarrow> bool \<times> Inventory" where
  "add iv item =
     (let overflow = (total_weight iv + item_total_weight item > capacity iv);
          available = capacity iv - total_weight iv;
          addable = available / weight_per_unit item
      in if overflow \<and> available \<le> 0 then (False, iv)
         else if overflow \<and> addable < 1 / 100 then (False, iv)
         else
           let item1 = (if overflow then item\<lparr>quantity := addable\<rparr> else item);
               t = item_type item1;
               stacks = (case map_of (items iv) t of None \<Rightarrow> [] | Some s \<Rightarrow> s)
           in (True, iv\<lparr>items := AList.update t (merge_stacks stacks item1) (items iv)\<rparr>))"

text \<open>
  The same methods with the arithmetic of doubles: the catalog weight is the double nearest
  to the decimal literal of the source, \<open>total_weight\<close> sums the stack weights with
  \<open>sum\<close>, and \<open>Inventory.add\<close> compares, subtracts and divides rounded values.
\<close>

definition weight_per_unit_f :: "Item \<Rightarrow> real" where
  "weight_per_unit_f i = fl (weight_per_unit i)"

definition item_total_weight_f :: "Item \<Rightarrow> real" where
  "item_total_weight_f i = fmul (quantity i) (weight_per_unit_f i)"

definition total_weight_f :: "Inventory \<Rightarrow> real" where
  "total_weight_f iv = py_sum (map item_total_weight_f (concat (map snd (items iv))))"

fun merge_stacks_f :: "Item list \<Rightarrow> Item \<Rightarrow> Item list" where
  "merge_stacks_f [] item = [item]"
| "merge_stacks_f (existing # rest) item =
     (if \<bar>fsub (quality existing) (quality item)\<bar> < fl (5 / 100) \<and> \<not> is_tool item
      then existing\<lparr>quantity := fadd (quantity existing) (quantity item)\<rparr> # rest
      else existing # merge_stacks_f rest item)"

definition add_f :: "Inventory \<Rightarrow> Item \<Rightarrow> bool \<times> Inventory" where
  "add_f iv item =
     (let overflow = (fadd (total_weight_f iv) (item_total_weight_f item) > capacity iv);
          available = fsub (capacity iv) (total_weight_f iv);
          addable = fdiv available (weight_per_unit_f item)
      in if overflow \<and> available \<le> 0 then (False, iv)
         else if overflow \<and> addable < fl (1 / 100) then (False, iv)
         else
           let item1 = (if overflow then item\<lparr>quantity := addable\<rparr> else item);
               t = item_type item1;
               stacks = (case map_of (items iv) t of None \<Rightarrow> [] | Some s \<Rightarrow> s)
           in (True, iv\<lparr>items := AList.update t (merge_stacks_f stacks item1) (items iv)\<rparr>))"

text \<open>
  The \<open>while\<close> loop of \<open>Inventory.remove\<close> over the stacks of one item type, oldest
  first: it returns the stacks left, the quantity removed and the average quality.
\<close>

function remove_loop :: "real \<Rightarrow> Item list \<Rightarrow> real \<Rightarrow> real \<Rightarrow> Item list \<times> real \<times> real" where
  "remove_loop qty stacks removed_qty avg_quality =
     (if removed_qty < qty \<and> stacks \<noteq> [] then
        (let stack = hd stacks;
             take = min (qty - removed_qty) (quantity stack);
             avg1 = (if removed_qty + take > 0
                     then (avg_quality * removed_qty + quality stack * take) / (removed_qty + take)
                     else 0);
             removed1 = removed_qty + take;
             stack1 = stack\<lparr>quantity := quantity stack - take\<rparr>;
             stacks1 = (if quantity stack1 \<le> 1 / 1000 then tl stacks else stack1 # tl stacks)
         in remove_loop qty stacks1 removed1 avg1)
      else (stacks, removed_qty, avg_quality))"
  by pat_completeness auto
termination
proof (relation "measure (\<lambda>(qty, stacks, removed_qty, avg_quality).
         2 * length stacks + (if removed_qty < qty then 1 else 0))", goal_cases)
  case 1
  show ?case by simp
next
  case (2 qty stacks removed_qty avg_quality stack take avg1 removed1 stack1 stacks1)
  then show ?case
    by (cases stacks) (auto simp: min_def split: if_splits)
qed

text \<open>
  \<open>Inventory.remove\<close>: the removed item (or \<open>None\<close>) and the inventory after the call.
  When nothing was removed the stacks popped by the loop stay popped and the key is kept.
\<close>

definition remove :: "Inventory \<Rightarrow> string \<Rightarrow> real \<Rightarrow> Item option \<times> Inventory" where
  "remove iv t qty =
     (case map_of (items iv) t of
        None \<Rightarrow> (None, iv)
      | Some stacks0 \<Rightarrow>
          (case remove_loop qty stacks0 0 0 of
             (stacks, removed_qty, avg_quality) \<Rightarrow>
               if removed_qty \<le> 0
               then (None, iv\<lparr>items := AList.update t stacks (items iv)\<rparr>)
               else (Some (new_item t removed_qty avg_quality),
                     iv\<lparr>items := (if stacks = [] then AList.delete t (items iv)
                                     else AList.update t stacks (items iv))\<rparr>)))"

text \<open>\<open>Inventory.get_best_tool\<close> and \<open>has_tool_type\<close>.\<close>

definition better_tool :: "string \<Rightarrow> Item option \<Rightarrow> Item \<Rightarrow> Item option" where
  "better_tool tt best item =
     (if tool_type item = Some tt \<and> current_durability item > 0
      then (case best of
              None \<Rightarrow> Some item
            | Some b \<Rightarrow> if tool_quality item > tool_quality b then Some item else Some b)
      else best)"

definition get_best_tool :: "Inventory \<Rightarrow> string \<Rightarrow> Item option" where
  "get_best_tool iv tt = foldl (better_tool tt) None (concat (map snd (items iv)))"

definition has_tool_type :: "Inventory \<Rightarrow> string \<Rightarrow> bool" where
  "has_tool_type iv tt = (get_best_tool iv tt \<noteq> None)"

text \<open>\<open>Inventory.total_food_value\<close>.\<close>

definition total_food_value :: "Inventory \<Rightarrow> real" where
  "total_food_value iv =
     sum_list (map (\<lambda>t. sum_list (map (\<lambda>i. quantity i * food_value i)
                                      (case map_of (items iv) t of None \<Rightarrow> [] | Some s \<Rightarrow> s)))
                   food_items)"


subsection \<open>economy/trade.py: offers and their execution\<close>

text \<open>The dataclasses \<open>TradeOffer\<close> and \<open>TradeRecord\<close>, and the counters of \<open>TradeSystem\<close>.\<close>

record TradeOffer =
  offering :: "(string \<times> real) list"
  requesting :: "(string \<times> real) list"
  offerer_id :: int
  target_id :: int

record TradeRecord =
  r_day :: int
  r_offerer_id :: int
  r_target_id :: int
  items_offered :: "(string \<times> real) list"
  items_received :: "(string \<times> real) list"

record TradeSystem =
  daily_trades :: "TradeRecord list"
  total_trades :: int
  total_items_exchanged :: real

text \<open>
  Inventories are objects that \<open>execute_trade\<close> mutates in place, and the engine may pass
  the same family inventory for both sides. They live in a store indexed by reference.
\<close>

type_synonym inv_store = "nat \<Rightarrow> Inventory"

text \<open>
  A verification loop of \<open>execute_trade\<close>: no committed item type is held in less than
  99% of the committed quantity.
\<close>

definition holds_enough :: "Inventory \<Rightarrow> (string \<times> real) list \<Rightarrow> bool" where
  "holds_enough iv committed =
     list_all (\<lambda>(t, qty). \<not> total_of iv t < qty * (99 / 100)) committed"

text \<open>
  A transfer loop of \<open>execute_trade\<close>: each committed quantity is removed from the source
  and, when something was removed, added to the destination; the result of \<open>add\<close> is
  not looked at.
\<close>

fun transfer :: "inv_store \<Rightarrow> nat \<Rightarrow> nat \<Rightarrow> (string \<times> real) list \<Rightarrow> inv_store" where
  "transfer st src dst [] = st"
| "transfer st src dst ((t, qty) # rest) =
     (case remove (st src) t qty of
        (removed, src1) \<Rightarrow>
          (let st1 = st(src := src1)
           in case removed of
                None \<Rightarrow> transfer st1 src dst rest
              | Some item \<Rightarrow> transfer (st1(dst := snd (add (st1 dst) item))) src dst rest))"

text \<open>
  \<open>TradeSystem.execute_trade\<close>; \<open>oref\<close> and \<open>tref\<close> are the references of
  \<open>offerer_inv\<close> and \<open>target_inv\<close>. The two villager arguments are not used by the body.
\<close>

definition execute_trade ::
  "TradeSystem \<Rightarrow> TradeOffer \<Rightarrow> nat \<Rightarrow> nat \<Rightarrow> inv_store \<Rightarrow> int \<Rightarrow> bool \<times> TradeSystem \<times> inv_store" where
  "execute_trade ts offer oref tref st day =
     (if \<not> holds_enough (st oref) (offering offer) then (False, ts, st)
      else if \<not> holds_enough (st tref) (requesting offer) then (False, ts, st)
      else
        (let st1 = transfer st oref tref (offering offer);
             st2 = transfer st1 tref oref (requesting offer);
             items_exchanged = sum_list (map snd (offering offer))
                               + sum_list (map snd (requesting offer));
             record = \<lparr>r_day = day, r_offerer_id = offerer_id offer,
                        r_target_id = target_id offer, items_offered = offering offer,
                        items_received = requesting offer\<rparr>
         in (True,
             ts\<lparr>daily_trades := daily_trades ts @ [record],
                total_trades := total_trades ts + 1,
                total_items_exchanged := total_items_exchanged ts + items_exchanged\<rparr>,
             st2)))"

subsection \<open>simulation/metrics.py: the Gini coefficient\<close>

text \<open>
  \<open>sum((i + 1) * v for i, v in enumerate(sorted_vals))\<close>, in double arithmetic: the
  integer rank is converted and the product rounded.
\<close>

definition weighted_sum :: "real list \<Rightarrow> real" where
  "weighted_sum vals = py_sum (map (\<lambda>(i, v). fmul (real i + 1) v) (enumerate 0 vals))"

definition all_zero :: "real list \<Rightarrow> bool" where
  "all_zero vals = list_all (\<lambda>v. v = 0) vals"

text \<open>
  \<open>MetricsCollector.gini_coefficient\<close>, in double arithmetic. The loop that accumulates
  \<open>cumulative\<close> has no effect on the result and is left out. \<open>(n + 1) / n\<close> is the
  true division of two integers, which yields the double nearest to the quotient.
\<close>

definition gini_coefficient :: "real list \<Rightarrow> real" where
  "gini_coefficient vals =
     (if vals = [] \<or> all_zero vals then 0
      else
        (let sorted_vals = sort vals;
             n = length sorted_vals;
             total = py_sum sorted_vals
         in if total = 0 then 0
            else fsub (fdiv (fmul 2 (weighted_sum sorted_vals)) (fmul (real n) total))
                      (fdiv (real n + 1) (real n))))"

subsection \<open>agents: the villager\<close>

text \<open>
  The dataclass \<open>PersonalityTraits\<close>, the part of \<open>Memory\<close> that the modelled functions
  read (\<open>skill_experience\<close>), and the attributes of \<open>Villager\<close> that they read or write.
  The attribute \<open>id\<close> is called \<open>villager_id\<close>, as the constructor's parameter is.
\<close>

record PersonalityTraits =
  strength :: real
  endurance :: real
  dexterity :: real
  intelligence :: real
  patience :: real
  risk_tolerance :: real
  sociability :: real
  ambition :: real
  conscientiousness :: real
  empathy :: real
  creativity :: real
  baseline_optimism :: real
  emotional_stability :: real
  loss_aversion :: real

record Memory =
  skill_experience :: "(string \<times> real) list"

record Villager =
  villager_id :: int
  traits :: PersonalityTraits
  needs :: NeedSystem
  memory :: Memory
  health :: real
  v_family_id :: int
  current_position :: "int \<times> int"
  personal_inventory :: "Inventory option"

subsection \<open>social/family.py\<close>

text \<open>
  The dataclass \<open>Family\<close>; of its attributes the list of farm plots is left out, no
  modelled function touches it.
\<close>

record Family =
  family_id :: int
  member_ids :: "int list"
  head_of_household :: int
  home_position :: "int \<times> int"
  inventory :: Inventory
  shelter_id :: "int option"

text \<open>\<open>Family.add_member\<close> and \<open>Family.remove_member\<close>.\<close>

definition add_member :: "Family \<Rightarrow> int \<Rightarrow> Family" where
  "add_member fam v =
     (if v \<notin> set (member_ids fam) then fam\<lparr>member_ids := member_ids fam @ [v]\<rparr> else fam)"

definition remove_member :: "Family \<Rightarrow> int \<Rightarrow> Family" where
  "remove_member fam v =
     (let fam1 = (if v \<in> set (member_ids fam)
                  then fam\<lparr>member_ids := remove1 v (member_ids fam)\<rparr> else fam)
      in if head_of_household fam1 = v \<and> member_ids fam1 \<noteq> []
         then fam1\<lparr>head_of_household := hd (member_ids fam1)\<rparr>
         else fam1)"

text \<open>
  \<open>FamilyManager\<close>: the dict \<open>families\<close> and the counter \<open>_next_id\<close>. Each key holds its
  own \<open>Family\<close> object.
\<close>

record FamilyManager =
  families :: "(int \<times> Family) list"
  next_id :: int

datatype py_error = KeyError

definition FAMILY_INVENTORY_CAPACITY :: real where "FAMILY_INVENTORY_CAPACITY = 200"

definition create_family :: "FamilyManager \<Rightarrow> int list \<Rightarrow> int \<times> int \<Rightarrow> Family \<times> FamilyManager" where
  "create_family fm founding_members home =
     (let fam = \<lparr>family_id = next_id fm, member_ids = founding_members,
                  head_of_household = (if founding_members \<noteq> [] then hd founding_members else - 1),
                  home_position = home,
                  inventory = Inventory_init FAMILY_INVENTORY_CAPACITY ''family'',
                  shelter_id = None\<rparr>
      in (fam, fm\<lparr>families := AList.update (family_id fam) fam (families fm),
                   next_id := next_id fm + 1\<rparr>))"

text \<open>
  \<open>FamilyManager.form_marriage\<close>. It returns the family it returns in the source, the
  manager and villager B after the call. \<open>del self.families[...]\<close> raises \<open>KeyError\<close> on a
  missing key.
\<close>

definition form_marriage ::
  "FamilyManager \<Rightarrow> Villager \<Rightarrow> Villager \<Rightarrow> py_error + (Family \<times> FamilyManager \<times> Villager)" where
  "form_marriage fm villager_a villager_b =
     (case (map_of (families fm) (v_family_id villager_a),
            map_of (families fm) (v_family_id villager_b)) of
        (Some fam_a, Some fam_b) \<Rightarrow>
          if family_id fam_a \<noteq> family_id fam_b then
            (let fam_b1 = remove_member fam_b (villager_id villager_b);
                 fam_a1 = add_member fam_a (villager_id villager_b);
                 fs1 = AList.update (v_family_id villager_a) fam_a1
                         (AList.update (v_family_id villager_b) fam_b1 (families fm));
                 villager_b1 = villager_b\<lparr>v_family_id := family_id fam_a1\<rparr>
             in if member_ids fam_b1 = [] then
                  (if map_of fs1 (family_id fam_b1) = None then Inl KeyError
                   else Inr (fam_a1, fm\<lparr>families := AList.delete (family_id fam_b1) fs1\<rparr>,
                             villager_b1))
                else Inr (fam_a1, fm\<lparr>families := fs1\<rparr>, villager_b1))
          else
            (let fam_a1 = add_member fam_a (villager_id villager_b)
             in Inr (fam_a1,
                     fm\<lparr>families := AList.update (v_family_id villager_a) fam_a1 (families fm)\<rparr>,
                     villager_b\<lparr>v_family_id := family_id fam_a1\<rparr>))
      | (Some fam_a, None) \<Rightarrow>
          (let fam_a1 = add_member fam_a (villager_id villager_b)
           in Inr (fam_a1,
                   fm\<lparr>families := AList.update (v_family_id villager_a) fam_a1 (families fm)\<rparr>,
                   villager_b\<lparr>v_family_id := family_id fam_a1\<rparr>))
      | (None, _) \<Rightarrow>
          (case create_family fm [villager_id villager_a, villager_id villager_b] (40, 40) of
             (fam, fm1) \<Rightarrow> Inr (fam, fm1, villager_b)))"

text \<open>
  \<open>Villager.__init__\<close> with default traits, followed by the assignment of a family id: the
  villager has full needs, an empty memory, health 100 and no personal inventory yet.
\<close>

definition default_traits :: PersonalityTraits where
  "default_traits = \<lparr>strength = 50, endurance = 50, dexterity = 50, intelligence = 50,
     patience = 50, risk_tolerance = 50, sociability = 50, ambition = 50,
     conscientiousness = 50, empathy = 50, creativity = 50, baseline_optimism = 50,
     emotional_stability = 50, loss_aversion = 50\<rparr>"

definition Villager_init :: "int \<Rightarrow> int \<Rightarrow> Villager" where
  "Villager_init vid fid = \<lparr>villager_id = vid, traits = default_traits, needs = NeedSystem_init,
     memory = \<lparr>skill_experience = []\<rparr>, health = 100, v_family_id = fid,
     current_position = (100, 100), personal_inventory = None\<rparr>"

text \<open>
  \<open>FamilyManager.build_from_villagers\<close> on one family's group of members: the family it
  stores under \<open>fam_id\<close>.
\<close>

definition built_family :: "int \<Rightarrow> int list \<Rightarrow> Family" where
  "built_family fam_id members = \<lparr>family_id = fam_id, member_ids = members,
     head_of_household = hd members, home_position = (40, 40),
     inventory = Inventory_init FAMILY_INVENTORY_CAPACITY ''family'', shelter_id = None\<rparr>"

subsection \<open>economy/trade.py: subjective value\<close>

text \<open>Constants of core/config.py used by the trade system and by \<open>Memory.skill_level\<close>.\<close>

definition BASE_DAILY_FOOD_NEED :: real where "BASE_DAILY_FOOD_NEED = 3 / 2"
definition TRADE_SURPLUS_DAYS_THRESHOLD :: real where "TRADE_SURPLUS_DAYS_THRESHOLD = 5"
definition TRADE_DEFICIT_DAYS_THRESHOLD :: real where "TRADE_DEFICIT_DAYS_THRESHOLD = 3"
definition TRADE_PERSONALITY_MARGIN :: real where "TRADE_PERSONALITY_MARGIN = 15 / 100"
definition TRADE_VALUE_FOOD_HUNGRY_MULTIPLIER :: real where
  "TRADE_VALUE_FOOD_HUNGRY_MULTIPLIER = 3"
definition TRADE_DIMINISHING_SURPLUS_FACTOR :: real where
  "TRADE_DIMINISHING_SURPLUS_FACTOR = 1 / 2"
definition SKILL_LEARNING_RATE :: real where "SKILL_LEARNING_RATE = 50"

text \<open>\<open>Memory.skill_level\<close> (agents/memory.py).\<close>

definition skill_level :: "Memory \<Rightarrow> string \<Rightarrow> real \<Rightarrow> real" where
  "skill_level m activity intel =
     (let xp = (case map_of (skill_experience m) activity of None \<Rightarrow> 0 | Some x \<Rightarrow> x);
          effective_rate = SKILL_LEARNING_RATE * (1 + (1 / 2) * (intel / 100))
      in 100 * (1 - exp (- xp / effective_rate)))"

text \<open>
  \<open>villager.needs.needs[name].satisfaction\<close>, which raises \<open>KeyError\<close> on a missing name, and
  the assignment \<open>villager.needs.needs[name].satisfaction = s\<close>.
\<close>

definition need_sat :: "Villager \<Rightarrow> string \<Rightarrow> py_error + real" where
  "need_sat v nm =
     (case map_of (needs v) nm of None \<Rightarrow> Inl KeyError | Some n \<Rightarrow> Inr (satisfaction n))"

definition set_satisfaction :: "Villager \<Rightarrow> string \<Rightarrow> real \<Rightarrow> Villager" where
  "set_satisfaction v nm s =
     v\<lparr>needs := map (\<lambda>(k, n). if k = nm then (k, n\<lparr>satisfaction := s\<rparr>) else (k, n)) (needs v)\<rparr>"

text \<open>The lookups \<open>cat.get(key, default)\<close> on \<open>cat = ITEM_CATALOG.get(item_type, {})\<close>.\<close>

definition cat_weight :: "string \<Rightarrow> real" where
  "cat_weight t = (case catalog_get t of None \<Rightarrow> 1 | Some c \<Rightarrow> c_weight c)"

definition cat_food_value :: "string \<Rightarrow> real" where
  "cat_food_value t =
     (case catalog_get t of None \<Rightarrow> 0
      | Some c \<Rightarrow> (case c_food_value c of None \<Rightarrow> 0 | Some f \<Rightarrow> f))"

definition cat_perish_days :: "string \<Rightarrow> int" where
  "cat_perish_days t =
     (case catalog_get t of None \<Rightarrow> 999
      | Some c \<Rightarrow> (case c_perish_days c of None \<Rightarrow> 999 | Some d \<Rightarrow> d))"

definition cat_warmth_value :: "string \<Rightarrow> real" where
  "cat_warmth_value t =
     (case catalog_get t of None \<Rightarrow> 0
      | Some c \<Rightarrow> (case c_warmth_value c of None \<Rightarrow> 0 | Some f \<Rightarrow> f))"

definition cat_heal_value :: "string \<Rightarrow> real" where
  "cat_heal_value t =
     (case catalog_get t of None \<Rightarrow> 0
      | Some c \<Rightarrow> (case c_heal_value c of None \<Rightarrow> 0 | Some f \<Rightarrow> f))"

text \<open>
  The stages of \<open>subjective_value\<close>, in the order of the source. The multiplier for food
  when hungry:
\<close>

definition hunger_mult :: "real \<Rightarrow> real" where
  "hunger_mult hunger_sat =
     (if hunger_sat < 1 / 2
      then 1 + (1 / 2 - hunger_sat) * (TRADE_VALUE_FOOD_HUNGRY_MULTIPLIER - 1) * 2
      else 1)"

definition shelf_factor :: "string \<Rightarrow> real" where
  "shelf_factor t =
     (let perish_days = cat_perish_days t
      in if perish_days < 999
         then 7 / 10 + (3 / 10) * min 1 (real_of_int perish_days / 60)
         else 1)"

definition food_stage :: "Villager \<Rightarrow> string \<Rightarrow> real \<Rightarrow> py_error + real" where
  "food_stage v t base_value =
     (if cat_food_value t > 0 then
        (case need_sat v ''hunger'' of
           Inl e \<Rightarrow> Inl e
         | Inr hunger_sat \<Rightarrow>
             Inr (cat_food_value t * hunger_mult hunger_sat * 2 * shelf_factor t))
      else Inr base_value)"

definition tool_stage :: "Villager \<Rightarrow> string \<Rightarrow> Inventory option \<Rightarrow> real \<Rightarrow> real" where
  "tool_stage v t family_inv base_value =
     (case get_tool_type t of
        None \<Rightarrow> base_value
      | Some tt \<Rightarrow>
          if tt = [] then base_value
          else
            (let has_tool0 = (case personal_inventory v of
                                None \<Rightarrow> False | Some p \<Rightarrow> has_tool_type p tt);
                 has_tool = (if \<not> has_tool0
                             then (case family_inv of
                                     None \<Rightarrow> has_tool0 | Some f \<Rightarrow> has_tool_type f tt)
                             else has_tool0);
                 b = (if \<not> has_tool then base_value * 3 else base_value * (8 / 10))
             in b * (8 / 10 + (4 / 10) * ambition (traits v) / 100)))"

definition warmth_stage :: "Villager \<Rightarrow> string \<Rightarrow> real \<Rightarrow> py_error + real" where
  "warmth_stage v t base_value =
     (if cat_warmth_value t > 0 then
        (case need_sat v ''warmth'' of
           Inl e \<Rightarrow> Inl e
         | Inr warmth_sat \<Rightarrow> Inr (if warmth_sat < 1 / 2 then base_value * 2 else base_value))
      else Inr base_value)"

definition medicine_stage :: "Villager \<Rightarrow> string \<Rightarrow> real \<Rightarrow> py_error + real" where
  "medicine_stage v t base_value =
     (if cat_heal_value t > 0 then
        (case need_sat v ''health'' of
           Inl e \<Rightarrow> Inl e
         | Inr health_sat \<Rightarrow>
             Inr (if health_sat < 7 / 10 then base_value * (5 / 2) else base_value))
      else Inr base_value)"

definition owned_quantity :: "Villager \<Rightarrow> string \<Rightarrow> Inventory option \<Rightarrow> real" where
  "owned_quantity v t family_inv =
     (case family_inv of None \<Rightarrow> 0 | Some f \<Rightarrow> total_of f t)
     + (case personal_inventory v of None \<Rightarrow> 0 | Some p \<Rightarrow> total_of p t)"

definition diminish_factor :: "Villager \<Rightarrow> string \<Rightarrow> Inventory option \<Rightarrow> real" where
  "diminish_factor v t family_inv =
     (let owned = owned_quantity v t family_inv
      in if owned > 0 then 1 / (1 + owned * TRADE_DIMINISHING_SURPLUS_FACTOR) else 1)"

definition skill_map :: "(string \<times> string) list" where
  "skill_map = [(''raw_meat'', ''hunting''), (''fish'', ''fishing''),
                (''berries'', ''gathering''), (''vegetables'', ''farming'')]"

definition skill_factor :: "Villager \<Rightarrow> string \<Rightarrow> real" where
  "skill_factor v t =
     (case map_of skill_map t of
        None \<Rightarrow> 1
      | Some skill_name \<Rightarrow>
          (let skill = skill_level (memory v) skill_name (intelligence (traits v))
           in if skill > 30 then max (1 / 2) (1 - skill / 200) else 1))"

text \<open>
  \<open>subjective_value\<close>. A conditional \<open>base_value *= f\<close> of the source is the multiplication by
  a factor that is 1 when the condition fails.
\<close>

definition subjective_value ::
  "Villager \<Rightarrow> string \<Rightarrow> real \<Rightarrow> Inventory option \<Rightarrow> py_error + real" where
  "subjective_value v t qty family_inv =
     (case food_stage v t (cat_weight t * (1 / 2)) of
        Inl e \<Rightarrow> Inl e
      | Inr b1 \<Rightarrow>
          (case warmth_stage v t (tool_stage v t family_inv b1) of
             Inl e \<Rightarrow> Inl e
           | Inr b3 \<Rightarrow>
               (case medicine_stage v t b3 of
                  Inl e \<Rightarrow> Inl e
                | Inr b4 \<Rightarrow>
                    Inr (max (1 / 100)
                          (b4 * diminish_factor v t family_inv * skill_factor v t * qty)))))"

text \<open>
  What multiplies the hunger multiplier and the quantity in the value of a food item: food
  value, the factor 2, shelf life, owned quantity and skill.
\<close>

definition food_base :: "Villager \<Rightarrow> string \<Rightarrow> Inventory option \<Rightarrow> real" where
  "food_base v t family_inv =
     cat_food_value t * 2 * shelf_factor t * diminish_factor v t family_inv * skill_factor v t"

definition is_food :: "string \<Rightarrow> bool" where
  "is_food t = (cat_food_value t > 0)"

subsection \<open>economy/trade.py: surplus, deficits and offers\<close>

text \<open>
  The loop of \<open>_get_surplus\<close> over the item types of an inventory, carrying the food need
  that is still uncovered. The villager argument of the source is not used.
\<close>

fun surplus_loop ::
  "(string \<times> Item list) list \<Rightarrow> real \<Rightarrow> (string \<times> real) list \<Rightarrow> (string \<times> real) list" where
  "surplus_loop [] remaining_food_need surplus = surplus"
| "surplus_loop ((t, stacks) # rest) remaining_food_need surplus =
     (let total_qty = sum_list (map quantity stacks)
      in if total_qty \<le> 1 / 100 then surplus_loop rest remaining_food_need surplus
         else if cat_food_value t > 0 then
           (let needed_qty = remaining_food_need / max (1 / 100) (cat_food_value t);
                excess = total_qty - needed_qty
            in surplus_loop rest
                 (remaining_food_need - min total_qty needed_qty * cat_food_value t)
                 (if excess > 1 / 2 then AList.update t excess surplus else surplus))
         else if (case get_tool_type t of None \<Rightarrow> False | Some tt \<Rightarrow> tt \<noteq> []) then
           surplus_loop rest remaining_food_need
             (if total_qty > 1 then AList.update t (total_qty - 1) surplus else surplus)
         else
           surplus_loop rest remaining_food_need
             (if total_qty > 5 then AList.update t (total_qty - 5) surplus else surplus))"

definition get_surplus :: "Inventory \<Rightarrow> (string \<times> real) list" where
  "get_surplus iv =
     surplus_loop (items iv) (BASE_DAILY_FOOD_NEED * TRADE_SURPLUS_DAYS_THRESHOLD) []"

text \<open>
  \<open>_get_deficits\<close>. The food loop stops at its first preference, grain. The tool loop
  runs over a Python set of strings, whose iteration order is not fixed by the source: the
  order is the parameter \<open>tool_order\<close>.
\<close>

definition first_item_with_tool :: "string \<Rightarrow> string option" where
  "first_item_with_tool tt =
     map_option fst (find (\<lambda>(k, c). c_tool_type c = Some tt) ITEM_CATALOG)"

fun tool_deficits ::
  "Villager \<Rightarrow> Inventory \<Rightarrow> string list \<Rightarrow> (string \<times> real) list \<Rightarrow> (string \<times> real) list" where
  "tool_deficits v iv [] deficits = deficits"
| "tool_deficits v iv (tt # rest) deficits =
     (let has0 = has_tool_type iv tt;
          has1 = (case personal_inventory v of
                    None \<Rightarrow> has0
                  | Some p \<Rightarrow> if \<not> has0 then has_tool_type p tt else has0)
      in if \<not> has1 then
           (case first_item_with_tool tt of
              None \<Rightarrow> tool_deficits v iv rest deficits
            | Some itype \<Rightarrow> tool_deficits v iv rest (AList.update itype 1 deficits))
         else tool_deficits v iv rest deficits)"

definition get_deficits ::
  "string list \<Rightarrow> Villager \<Rightarrow> Inventory \<Rightarrow> py_error + (string \<times> real) list" where
  "get_deficits tool_order v iv =
     (let food_need = BASE_DAILY_FOOD_NEED * TRADE_DEFICIT_DAYS_THRESHOLD;
          fv = (case catalog_get ''grain'' of
                  None \<Rightarrow> 1 / 2
                | Some c \<Rightarrow> (case c_food_value c of None \<Rightarrow> 1 / 2 | Some f \<Rightarrow> f));
          d0 = (if total_food_value iv < food_need
                then [(''grain'', (food_need - total_food_value iv) / fv)] else []);
          d1 = tool_deficits v iv tool_order d0
      in case need_sat v ''warmth'' of
           Inl e \<Rightarrow> Inl e
         | Inr warmth_sat \<Rightarrow>
             (let d2 = (if warmth_sat < 4 / 10 \<and> \<not> has iv ''clothing'' 1
                        then AList.update ''clothing'' 1 d1 else d1);
                  d3 = (if health v < 70 \<and> \<not> has iv ''medicine'' 1
                        then AList.update ''medicine'' 1 d2 else d2)
              in Inr d3))"

text \<open>
  The loops of \<open>generate_offer\<close>. Surplus items that match the partner's estimated
  deficits are offered, valued from the partner's side:
\<close>

fun offer_matches ::
  "Villager \<Rightarrow> Inventory \<Rightarrow> (string \<times> real) list \<Rightarrow> (string \<times> real) list \<Rightarrow>
   (string \<times> real) list \<times> real \<Rightarrow> py_error + ((string \<times> real) list \<times> real)" where
  "offer_matches partner est pde [] acc = Inr acc"
| "offer_matches partner est pde ((t, qty) # rest) (offered, offer_value) =
     (case map_of pde t of
        None \<Rightarrow> offer_matches partner est pde rest (offered, offer_value)
      | Some d \<Rightarrow>
          (let offer_qty = min qty d
           in if offer_qty > 1 / 100 then
                (case subjective_value partner t offer_qty (Some est) of
                   Inl e \<Rightarrow> Inl e
                 | Inr sv \<Rightarrow>
                     offer_matches partner est pde rest
                       (AList.update t offer_qty offered, offer_value + sv))
              else offer_matches partner est pde rest (offered, offer_value)))"

text \<open>\<open>max(my_surplus.keys(), key=...)\<close>: the first key of maximal surplus.\<close>

fun first_max :: "(string \<times> real) \<Rightarrow> (string \<times> real) list \<Rightarrow> (string \<times> real)" where
  "first_max best [] = best"
| "first_max best ((t, q) # rest) = first_max (if q > snd best then (t, q) else best) rest"

text \<open>Items of the own deficit that the partner is estimated to hold are requested:\<close>

fun request_deficits ::
  "Villager \<Rightarrow> Inventory \<Rightarrow> Inventory \<Rightarrow> (string \<times> real) list \<Rightarrow>
   (string \<times> real) list \<times> real \<Rightarrow> py_error + ((string \<times> real) list \<times> real)" where
  "request_deficits v vinv est [] acc = Inr acc"
| "request_deficits v vinv est ((t, qty) # rest) (requested, request_value) =
     (let est_partner_has = total_of est t
      in if est_partner_has > 0 then
           (let req_qty = min qty (est_partner_has * (1 / 2))
            in if req_qty > 1 / 100 then
                 (case subjective_value v t req_qty (Some vinv) of
                    Inl e \<Rightarrow> Inl e
                  | Inr sv \<Rightarrow>
                      request_deficits v vinv est rest
                        (AList.update t req_qty requested, request_value + sv))
               else request_deficits v vinv est rest (requested, request_value))
         else request_deficits v vinv est rest (requested, request_value))"

text \<open>
  Otherwise the first suitable item of the partner's surplus is requested (the loop ends
  with \<open>break\<close>):
\<close>

fun request_surplus ::
  "Villager \<Rightarrow> Inventory \<Rightarrow> (string \<times> real) list \<Rightarrow> (string \<times> real) list \<Rightarrow>
   py_error + ((string \<times> real) list \<times> real)" where
  "request_surplus v vinv offered [] = Inr ([], 0)"
| "request_surplus v vinv offered ((t, qty) # rest) =
     (if map_of offered t = None then
        (let req_qty = min (qty * (3 / 10)) qty
         in if req_qty > 1 / 100 then
              (case subjective_value v t req_qty (Some vinv) of
                 Inl e \<Rightarrow> Inl e
               | Inr sv \<Rightarrow> Inr ([(t, req_qty)], sv))
            else request_surplus v vinv offered rest)
      else request_surplus v vinv offered rest)"

text \<open>
  \<open>generate_offer\<close> up to the comment ``Personality adjusts the deal'': the offering, the
  requested quantities before rescaling, and the two values; \<open>None\<close> where the source
  returns \<open>None\<close>. The trust argument of the source is not used.
\<close>

definition draft_offer ::
  "string list \<Rightarrow> Villager \<Rightarrow> Villager \<Rightarrow> Inventory \<Rightarrow> Inventory \<Rightarrow>
   py_error + ((string \<times> real) list \<times> (string \<times> real) list \<times> real \<times> real) option" where
  "draft_offer tool_order villager partner villager_inv est =
     (let my_surplus = get_surplus villager_inv
      in case get_deficits tool_order partner est of
           Inl e \<Rightarrow> Inl e
         | Inr pde \<Rightarrow>
             if my_surplus = [] then Inr None
             else
               (case offer_matches partner est pde my_surplus ([], 0) of
                  Inl e \<Rightarrow> Inl e
                | Inr (offered0, offer_value0) \<Rightarrow>
                    (case (if offered0 = [] then
                             (let best = first_max (hd my_surplus) (tl my_surplus);
                                  offer_qty = min (snd best) (snd best * (1 / 2))
                              in if offer_qty > 1 / 100 then
                                   (case subjective_value partner (fst best) offer_qty (Some est) of
                                      Inl e \<Rightarrow> Inl e
                                    | Inr sv \<Rightarrow> Inr ([(fst best, offer_qty)], offer_value0 + sv))
                                 else Inr (offered0, offer_value0))
                           else Inr (offered0, offer_value0)) of
                       Inl e \<Rightarrow> Inl e
                     | Inr (offered, offer_value) \<Rightarrow>
                         if offered = [] \<or> offer_value < 1 / 10 then Inr None
                         else
                           (case get_deficits tool_order villager villager_inv of
                              Inl e \<Rightarrow> Inl e
                            | Inr my_deficits \<Rightarrow>
                                (case request_deficits villager villager_inv est my_deficits
                                        ([], 0) of
                                   Inl e \<Rightarrow> Inl e
                                 | Inr (requested0, request_value0) \<Rightarrow>
                                     (case (if requested0 = []
                                            then request_surplus villager villager_inv offered
                                                   (get_surplus est)
                                            else Inr (requested0, request_value0)) of
                                        Inl e \<Rightarrow> Inl e
                                      | Inr (requested, request_value) \<Rightarrow>
                                          if requested = [] then Inr None
                                          else Inr (Some (offered, requested,
                                                          offer_value, request_value))))))))"

text \<open>The rescaling step: each requested quantity is replaced in place.\<close>

definition rescale_requesting ::
  "real \<Rightarrow> real \<Rightarrow> real \<Rightarrow> (string \<times> real) list \<Rightarrow> (string \<times> real) list" where
  "rescale_requesting amb offer_value request_value requested =
     (let ambition_factor = 1 + (amb - 50) / 100 * TRADE_PERSONALITY_MARGIN
      in if request_value > 0 \<and> offer_value > 0 then
           (let value_ratio = (offer_value * ambition_factor) / request_value
            in map (\<lambda>(t, q). (t, min (q * value_ratio) q)) requested)
         else requested)"

text \<open>\<open>TradeSystem.generate_offer\<close>.\<close>

definition generate_offer ::
  "string list \<Rightarrow> Villager \<Rightarrow> Villager \<Rightarrow> Inventory \<Rightarrow> Inventory \<Rightarrow>
   py_error + TradeOffer option" where
  "generate_offer tool_order villager partner villager_inv est =
     (case draft_offer tool_order villager partner villager_inv est of
        Inl e \<Rightarrow> Inl e
      | Inr None \<Rightarrow> Inr None
      | Inr (Some (offered0, requested0, offer_value, request_value)) \<Rightarrow>
          Inr (Some \<lparr>offering = offered0,
                     requesting = rescale_requesting (ambition (traits villager))
                                    offer_value request_value requested0,
                     offerer_id = villager_id villager,
                     target_id = villager_id partner\<rparr>))"

subsection \<open>agents/decision.py: the feasibility gates\<close>

text \<open>
  \<open>ResourceType\<close> (world/resources.py), and the attributes of \<open>ResourceNode\<close>,
  \<open>Activity\<close> and \<open>WorldState\<close> that \<open>_evaluate_activity\<close> reads before it scores. The
  nearest-node query of the resource manager is the field \<open>find_resource\<close>.
\<close>

datatype ResourceType = TIMBER | GAME_SMALL | GAME_LARGE | FISH | STONE | CLAY | IRON_ORE
  | WILD_PLANTS | MEDICINAL_HERBS | FARMLAND | FRESH_WATER

record ResourceNode =
  node_id :: int
  position :: "int \<times> int"
  current_abundance :: real

record Activity =
  a_name :: string
  base_hours :: real
  required_tools :: "string list"
  required_season :: "string list option"
  resource_type :: "ResourceType option"

record WorldState =
  season :: string
  find_resource :: "int \<times> int \<Rightarrow> ResourceType \<Rightarrow> ResourceNode option"
  family_inventories :: "(int \<times> Inventory) list"

record ActivityPlan =
  activity_name :: string
  target_resource_id :: "int option"
  target_villager_id :: "int option"
  planned_hours :: real
  target_position :: "(int \<times> int) option"

definition BASE_TRAVEL_SPEED :: real where "BASE_TRAVEL_SPEED = 8"

definition estimate_travel :: "int \<times> int \<Rightarrow> int \<times> int \<Rightarrow> real" where
  "estimate_travel start end' =
     real_of_int (\<bar>fst start - fst end'\<bar> + \<bar>snd start - snd end'\<bar>) / BASE_TRAVEL_SPEED"

text \<open>
  The body of the tool loop for one required category: the personal inventory first, then
  the family inventory.
\<close>

definition lookup_tool :: "Inventory option \<Rightarrow> Inventory option \<Rightarrow> string \<Rightarrow> Item option" where
  "lookup_tool pinv family_inv tt =
     (let tool = (case pinv of None \<Rightarrow> None | Some p \<Rightarrow> get_best_tool p tt)
      in if tool = None
         then (case family_inv of None \<Rightarrow> None | Some f \<Rightarrow> get_best_tool f tt)
         else tool)"

text \<open>The tool loop: it stops (\<open>break\<close>) at the first category for which a tool is found.\<close>

fun first_tool :: "Inventory option \<Rightarrow> Inventory option \<Rightarrow> string list \<Rightarrow> Item option" where
  "first_tool pinv family_inv [] = None"
| "first_tool pinv family_inv (tt # rest) =
     (case lookup_tool pinv family_inv tt of
        None \<Rightarrow> first_tool pinv family_inv rest
      | Some tool \<Rightarrow> Some tool)"

text \<open>
  \<open>DecisionEngine._evaluate_activity\<close>. The score, which draws from the random generator,
  is the parameter \<open>score\<close>, a function of the tool quality and the travel hours that the
  gates determine; \<open>None\<close> is the infeasible result.
\<close>

definition evaluate_activity ::
  "(real \<Rightarrow> real \<Rightarrow> real) \<Rightarrow> Villager \<Rightarrow> Activity \<Rightarrow> WorldState \<Rightarrow> real \<Rightarrow>
   (real \<times> ActivityPlan) option" where
  "evaluate_activity score villager activity world_state remaining_hours =
     (if base_hours activity > remaining_hours \<and> base_hours activity > 0 then None
      else if (case required_season activity of
                 None \<Rightarrow> False | Some seasons \<Rightarrow> season world_state \<notin> set seasons) then None
      else
        (let pinv = personal_inventory villager;
             family_inv = map_of (family_inventories world_state) (v_family_id villager);
             found = (if required_tools activity \<noteq> []
                      then first_tool pinv family_inv (required_tools activity) else None)
         in if required_tools activity \<noteq> [] \<and> found = None then None
            else
              (let tool_q = (case found of None \<Rightarrow> 1 | Some tool \<Rightarrow> tool_quality tool);
                   node = (case resource_type activity of
                             None \<Rightarrow> None
                           | Some rt \<Rightarrow> find_resource world_state (current_position villager) rt);
                   travel_hours = (case node of
                                     None \<Rightarrow> 0
                                   | Some nd \<Rightarrow> estimate_travel (current_position villager)
                                                 (position nd))
               in if resource_type activity \<noteq> None
                     \<and> (case node of None \<Rightarrow> True | Some nd \<Rightarrow> current_abundance nd \<le> 0)
                  then None
                  else if resource_type activity \<noteq> None
                          \<and> travel_hours * 2 + base_hours activity > remaining_hours
                  then None
                  else
                    (let hours0 = min (if base_hours activity \<noteq> 0 then base_hours activity
                                       else remaining_hours) remaining_hours;
                         hours1 = (if travel_hours > 0
                                   then min hours0 (remaining_hours - travel_hours * 2)
                                   else hours0)
                     in Some (max 0 (score tool_q travel_hours),
                              \<lparr>activity_name = a_name activity,
                               target_resource_id = map_option node_id node,
                               target_villager_id = None,
                               planned_hours = max 1 hours1,
                               target_position = map_option position node\<rparr>)))))"

text \<open>
  \<open>ACTIVITIES["build_shelter"]\<close> (economy/activities.py), the one activity with two
  required tool categories.
\<close>

definition build_shelter :: Activity where
  "build_shelter = \<lparr>a_name = ''build_shelter'', base_hours = 8,
     required_tools = [''axe'', ''construction''], required_season = None,
     resource_type = None\<rparr>"

text \<open>
  A resource manager without nodes, a score that is constantly 1, and a score that is the
  tool quality.
\<close>

definition no_resources :: "int \<times> int \<Rightarrow> ResourceType \<Rightarrow> ResourceNode option" where
  "no_resources p rt = None"

definition unit_score :: "real \<Rightarrow> real \<Rightarrow> real" where
  "unit_score tool_q travel_hours = 1"

definition quality_score :: "real \<Rightarrow> real \<Rightarrow> real" where
  "quality_score tool_q travel_hours = tool_q"

section \<open>Properties\<close>

subsection \<open>Needs\<close>

lemma decay_lower: "0 \<le> satisfaction (decay n m)"
  by (simp add: decay_def Let_def)

lemma satisfy_upper: "satisfaction (satisfy n a) \<le> 1"
  by (simp add: satisfy_def)

lemma decay_upper:
  "satisfaction n \<le> 1 \<Longrightarrow> 0 \<le> decay_rate n * m \<Longrightarrow> satisfaction (decay n m) \<le> 1"
  by (simp add: decay_def Let_def)

lemma satisfy_lower:
  "0 \<le> satisfaction n \<Longrightarrow> 0 \<le> a \<Longrightarrow> 0 \<le> satisfaction (satisfy n a)"
  by (simp add: satisfy_def)

text \<open>
  C3. The claim says that the satisfaction of a need stays within [0, 1] after every decay
  and satisfy call. \<open>satisfy\<close> clamps only from above, and the disease event passes it a
  negative amount: starting from the freshly built need system, four disease events of
  damage 30 leave the health need at satisfaction -0.2, below the documented range.
\<close>

theorem satisfy_negative_amount_leaves_range:
  "need_satisfaction
     (disease_hit (disease_hit (disease_hit (disease_hit NeedSystem_init 30) 30) 30) 30)
     ''health'' = Some (- (2 / 10))
   \<and> satisfaction (satisfy (mk_need ''health'' (1 / 10) 0 9 ''exponential'') (- (3 / 10))) < 0"
  by (simp add: need_satisfaction_def disease_hit_def NeedSystem_init_def mk_need_def
      satisfy_def)

subsection \<open>Double rounding\<close>

text \<open>The exponent search unfolds on numerals, so that \<open>fl\<close> evaluates on a rational.\<close>

lemma expo_up_numeral:
  "expo_up (numeral k) x = (if x < 2 then 0 else expo_up (pred_numeral k) (x / 2) + 1)"
  by (simp add: numeral_eq_Suc)

lemma expo_down_numeral:
  "expo_down (numeral k) x = (if 1 \<le> x then 0 else expo_down (pred_numeral k) (x * 2) - 1)"
  by (simp add: numeral_eq_Suc)

lemmas fl_eval = fl_def expo_def expo_up_numeral expo_down_numeral rne_def pow2_def Let_def

subsection \<open>Inventory\<close>

lemmas inventory_eval = total_weight_def total_of_def item_total_weight_def weight_per_unit_def
  catalog_get_def ITEM_CATALOG_def entry_def food_entry_def tool_entry_def new_item_def

text \<open>
  The doubles met when 300 arrows are added to a personal inventory of capacity 30 that
  holds one dried fish: the unit weights 0.8 and 0.1, the weights of the stacks, and the
  results of the overflow test, of the subtraction and of the division in \<open>Inventory.add\<close>.
\<close>

lemma fl_001: "fl (1 / 100) = 5764607523034235 / 576460752303423488"
  by (simp add: fl_eval)

lemma wpu_fish: "weight_per_unit_f (new_item ''dried_fish'' q ql) = 3602879701896397 / 4503599627370496"
  by (simp add: weight_per_unit_f_def weight_per_unit_def catalog_get_def ITEM_CATALOG_def
      entry_def food_entry_def tool_entry_def new_item_def fl_eval)

lemma wpu_arrows: "weight_per_unit_f (new_item ''arrows'' q ql) = 3602879701896397 / 36028797018963968"
  by (simp add: weight_per_unit_f_def weight_per_unit_def catalog_get_def ITEM_CATALOG_def
      entry_def food_entry_def tool_entry_def new_item_def fl_eval)

lemma w_fish: "item_total_weight_f (new_item ''dried_fish'' 1 (1 / 2)) = 3602879701896397 / 4503599627370496"
  unfolding item_total_weight_f_def wpu_fish fmul_def
  by (simp add: new_item_def fl_eval)

lemma w_arrows_300: "item_total_weight_f (new_item ''arrows'' 300 (1 / 2)) = 30"
  unfolding item_total_weight_f_def wpu_arrows fmul_def
  by (simp add: new_item_def fl_eval)

lemma w_arrows_292: "item_total_weight_f (new_item ''arrows'' 292 (1 / 2)) = 2054767329987789 / 70368744177664"
  unfolding item_total_weight_f_def wpu_arrows fmul_def
  by (simp add: new_item_def fl_eval)

lemma tw_before:
  "total_weight_f \<lparr>items = [(''dried_fish'', [new_item ''dried_fish'' 1 (1 / 2)])], capacity = 30,
               owner_type = ''personal''\<rparr> = 3602879701896397 / 4503599627370496"
  unfolding total_weight_f_def py_sum_def
  by (simp add: w_fish fadd_def fl_eval)

lemma overflow_300:
  "fadd (3602879701896397 / 4503599627370496) 30 = 8669429282688205 / 281474976710656"
  unfolding fadd_def by (simp add: fl_eval)

lemma available_292:
  "fsub 30 (3602879701896397 / 4503599627370496) = 8219069319951155 / 281474976710656"
  unfolding fsub_def by (simp add: fl_eval)

lemma addable_292:
  "fdiv (8219069319951155 / 281474976710656) (3602879701896397 / 36028797018963968) = 292"
  unfolding fdiv_def by (simp add: fl_eval)

lemma tw_after:
  "total_weight_f \<lparr>items = [(''dried_fish'', [new_item ''dried_fish'' 1 (1 / 2)]),
                         (''arrows'', [new_item ''arrows'' 292 (1 / 2)])], capacity = 30,
               owner_type = ''personal''\<rparr> = 8444249301319681 / 281474976710656"
  unfolding total_weight_f_def py_sum_def
  by (simp add: w_fish w_arrows_292 fadd_def fl_eval)

lemma item_type_new_item: "item_type (new_item t q ql) = t"
  by (simp add: new_item_def)

lemma new_item_quantity_update: "(new_item t q ql)\<lparr>quantity := q'\<rparr> = new_item t q' ql"
  by (simp add: new_item_def)

lemma tw_init: "total_weight_f (Inventory_init cap ot) = 0"
  by (simp add: total_weight_f_def py_sum_def Inventory_init_def)

lemma fadd_0_fish:
  "fadd 0 (3602879701896397 / 4503599627370496) = 3602879701896397 / 4503599627370496"
  unfolding fadd_def by (simp add: fl_eval)

text \<open>
  C4. The claim says that after \<open>Inventory.add\<close> the total weight never exceeds the
  capacity, and that an item that would overflow is clipped to exactly fill the remaining
  capacity. The code clips (\<open>addable = available / weight_per_unit\<close>), but in its double
  arithmetic the clipped quantity times the unit weight can round above what was available.
  A personal inventory of capacity 30 (the capacity the engine gives every villager) that
  holds one dried fish accepts 300 arrows clipped to 292; the stored 292 arrows weigh
  29.200000000000003, and \<open>total_weight\<close> is then 30.000000000000004, above the
  capacity.
\<close>

theorem add_clipped_exceeds_capacity:
  "add_f (Inventory_init 30 ''personal'') (new_item ''dried_fish'' 1 (1 / 2))
     = (True, \<lparr>items = [(''dried_fish'', [new_item ''dried_fish'' 1 (1 / 2)])], capacity = 30,
               owner_type = ''personal''\<rparr>)
   \<and> add_f \<lparr>items = [(''dried_fish'', [new_item ''dried_fish'' 1 (1 / 2)])], capacity = 30,
               owner_type = ''personal''\<rparr> (new_item ''arrows'' 300 (1 / 2))
     = (True, \<lparr>items = [(''dried_fish'', [new_item ''dried_fish'' 1 (1 / 2)]),
                         (''arrows'', [new_item ''arrows'' 292 (1 / 2)])], capacity = 30,
               owner_type = ''personal''\<rparr>)
   \<and> total_weight_f \<lparr>items = [(''dried_fish'', [new_item ''dried_fish'' 1 (1 / 2)]),
                         (''arrows'', [new_item ''arrows'' 292 (1 / 2)])], capacity = 30,
               owner_type = ''personal''\<rparr> = 8444249301319681 / 281474976710656
   \<and> capacity \<lparr>items = [(''dried_fish'', [new_item ''dried_fish'' 1 (1 / 2)]),
                         (''arrows'', [new_item ''arrows'' 292 (1 / 2)])], capacity = 30,
               owner_type = ''personal''\<rparr>
     < total_weight_f \<lparr>items = [(''dried_fish'', [new_item ''dried_fish'' 1 (1 / 2)]),
                         (''arrows'', [new_item ''arrows'' 292 (1 / 2)])], capacity = 30,
               owner_type = ''personal''\<rparr>"
proof -
  have first: "add_f (Inventory_init 30 ''personal'') (new_item ''dried_fish'' 1 (1 / 2))
     = (True, \<lparr>items = [(''dried_fish'', [new_item ''dried_fish'' 1 (1 / 2)])], capacity = 30,
               owner_type = ''personal''\<rparr>)"
    by (simp add: add_f_def Let_def tw_init w_fish fadd_0_fish item_type_new_item)
       (simp add: Inventory_init_def)
  have second: "add_f \<lparr>items = [(''dried_fish'', [new_item ''dried_fish'' 1 (1 / 2)])],
               capacity = 30, owner_type = ''personal''\<rparr> (new_item ''arrows'' 300 (1 / 2))
     = (True, \<lparr>items = [(''dried_fish'', [new_item ''dried_fish'' 1 (1 / 2)]),
                         (''arrows'', [new_item ''arrows'' 292 (1 / 2)])], capacity = 30,
               owner_type = ''personal''\<rparr>)"
    by (simp add: add_f_def Let_def tw_before w_arrows_300 wpu_arrows overflow_300
        available_292 addable_292 fl_001 item_type_new_item new_item_quantity_update)
  show ?thesis
    by (simp add: first second tw_after)
qed

subsection \<open>Trade execution\<close>

text \<open>
  C2. When the inventory verification of \<open>execute_trade\<close> fails on either side, the call
  returns False and neither inventory (nor the trade system) is changed; and False is
  returned in no other way.
\<close>

theorem execute_trade_failure_changes_nothing:
  "(\<not> holds_enough (st oref) (offering offer) \<or> \<not> holds_enough (st tref) (requesting offer)
      \<longrightarrow> execute_trade ts offer oref tref st day = (False, ts, st))
   \<and> (\<not> fst (execute_trade ts offer oref tref st day)
      \<longrightarrow> snd (execute_trade ts offer oref tref st day) = (ts, st)
          \<and> (\<not> holds_enough (st oref) (offering offer)
               \<or> \<not> holds_enough (st tref) (requesting offer)))"
  by (simp add: execute_trade_def Let_def)

theorem execute_trade_failure_changes_nothing_witness:
  "\<not> holds_enough
       ((\<lambda>r. if r = (0::nat)
          then \<lparr>items = [(''berries'', [new_item ''berries'' 1 (1 / 2)])], capacity = 200,
                 owner_type = ''family''\<rparr>
          else \<lparr>items = [], capacity = 200, owner_type = ''family''\<rparr>) 0)
       [(''berries'', 5)]
   \<and> execute_trade \<lparr>daily_trades = [], total_trades = 0, total_items_exchanged = 0\<rparr>
       \<lparr>offering = [(''berries'', 5)], requesting = [], offerer_id = 1, target_id = 2\<rparr> 0 1
       (\<lambda>r. if r = (0::nat)
          then \<lparr>items = [(''berries'', [new_item ''berries'' 1 (1 / 2)])], capacity = 200,
                 owner_type = ''family''\<rparr>
          else \<lparr>items = [], capacity = 200, owner_type = ''family''\<rparr>) 3
     = (False, \<lparr>daily_trades = [], total_trades = 0, total_items_exchanged = 0\<rparr>,
        (\<lambda>r. if r = (0::nat)
          then \<lparr>items = [(''berries'', [new_item ''berries'' 1 (1 / 2)])], capacity = 200,
                 owner_type = ''family''\<rparr>
          else \<lparr>items = [], capacity = 200, owner_type = ''family''\<rparr>))"
proof -
  let ?st = "\<lambda>r. if r = (0::nat)
          then \<lparr>items = [(''berries'', [new_item ''berries'' 1 (1 / 2)])], capacity = 200,
                 owner_type = ''family''\<rparr>
          else \<lparr>items = [], capacity = 200, owner_type = ''family''\<rparr>"
  let ?offer = "\<lparr>offering = [(''berries'', 5)], requesting = [], offerer_id = 1, target_id = 2\<rparr>"
  have h: "\<not> holds_enough (?st 0) (offering ?offer)"
    by (simp add: holds_enough_def total_of_def new_item_def)
  from execute_trade_failure_changes_nothing
         [of ?st 0 ?offer 1 "\<lparr>daily_trades = [], total_trades = 0, total_items_exchanged = 0\<rparr>" 3]
  have "\<not> holds_enough (?st 0) (offering ?offer) \<or> \<not> holds_enough (?st 1) (requesting ?offer)
      \<longrightarrow> execute_trade \<lparr>daily_trades = [], total_trades = 0, total_items_exchanged = 0\<rparr>
            ?offer 0 1 ?st 3
          = (False, \<lparr>daily_trades = [], total_trades = 0, total_items_exchanged = 0\<rparr>, ?st)"
    by (rule conjunct1)
  with h show ?thesis by simp
qed

declare remove_loop.simps [simp del]


















subsection \<open>Gini coefficient\<close>

text \<open>
  The operations of \<open>gini_coefficient\<close> on two values 0.1, and on two values 0.7, one
  rounding at a time.
\<close>

lemma gini_tenth_step_0: "fadd 0 (3602879701896397 / 36028797018963968) = (3602879701896397 / 36028797018963968)"
  by (simp add: fadd_def fl_eval)

lemma gini_tenth_step_1: "fadd (3602879701896397 / 36028797018963968) (3602879701896397 / 36028797018963968) = (3602879701896397 / 18014398509481984)"
  by (simp add: fadd_def fl_eval)

lemma gini_tenth_step_2: "fmul 1 (3602879701896397 / 36028797018963968) = (3602879701896397 / 36028797018963968)"
  by (simp add: fmul_def fl_eval)

lemma gini_tenth_step_3: "fmul 2 (3602879701896397 / 36028797018963968) = (3602879701896397 / 18014398509481984)"
  by (simp add: fmul_def fl_eval)

lemma gini_tenth_step_4: "fadd (3602879701896397 / 36028797018963968) (3602879701896397 / 18014398509481984) = (1351079888211149 / 4503599627370496)"
  by (simp add: fadd_def fl_eval)

lemma gini_tenth_step_5: "fmul 2 (1351079888211149 / 4503599627370496) = (1351079888211149 / 2251799813685248)"
  by (simp add: fmul_def fl_eval)

lemma gini_tenth_step_6: "fmul 2 (3602879701896397 / 18014398509481984) = (3602879701896397 / 9007199254740992)"
  by (simp add: fmul_def fl_eval)

lemma gini_tenth_step_7: "fdiv (1351079888211149 / 2251799813685248) (3602879701896397 / 9007199254740992) = (6755399441055745 / 4503599627370496)"
  by (simp add: fdiv_def fl_eval)

lemma gini_tenth_step_8: "fdiv 3 2 = (3 / 2)"
  by (simp add: fdiv_def fl_eval)

lemma gini_tenth_step_9: "fsub (6755399441055745 / 4503599627370496) (3 / 2) = (1 / 4503599627370496)"
  by (simp add: fsub_def fl_eval)

lemma gini_tenth: "gini_coefficient [fl (1 / 10), fl (1 / 10)] = (1 / 4503599627370496)"
proof -
  have d: "fl (1 / 10) = (3602879701896397 / 36028797018963968)"
    by (simp add: fl_eval)
  show ?thesis
    unfolding d
    by (simp add: gini_coefficient_def all_zero_def weighted_sum_def py_sum_def Let_def
        gini_tenth_step_0 gini_tenth_step_1 gini_tenth_step_2 gini_tenth_step_3 gini_tenth_step_4 gini_tenth_step_5 gini_tenth_step_6 gini_tenth_step_7 gini_tenth_step_8 gini_tenth_step_9)
qed

lemma gini_seven_tenths_step_0: "fadd 0 (3152519739159347 / 4503599627370496) = (3152519739159347 / 4503599627370496)"
  by (simp add: fadd_def fl_eval)

lemma gini_seven_tenths_step_1: "fadd (3152519739159347 / 4503599627370496) (3152519739159347 / 4503599627370496) = (3152519739159347 / 2251799813685248)"
  by (simp add: fadd_def fl_eval)

lemma gini_seven_tenths_step_2: "fmul 1 (3152519739159347 / 4503599627370496) = (3152519739159347 / 4503599627370496)"
  by (simp add: fmul_def fl_eval)

lemma gini_seven_tenths_step_3: "fmul 2 (3152519739159347 / 4503599627370496) = (3152519739159347 / 2251799813685248)"
  by (simp add: fmul_def fl_eval)

lemma gini_seven_tenths_step_4: "fadd (3152519739159347 / 4503599627370496) (3152519739159347 / 2251799813685248) = (1182194902184755 / 562949953421312)"
  by (simp add: fadd_def fl_eval)

lemma gini_seven_tenths_step_5: "fmul 2 (1182194902184755 / 562949953421312) = (1182194902184755 / 281474976710656)"
  by (simp add: fmul_def fl_eval)

lemma gini_seven_tenths_step_6: "fmul 2 (3152519739159347 / 2251799813685248) = (3152519739159347 / 1125899906842624)"
  by (simp add: fmul_def fl_eval)

lemma gini_seven_tenths_step_7: "fdiv (1182194902184755 / 281474976710656) (3152519739159347 / 1125899906842624) = (6755399441055743 / 4503599627370496)"
  by (simp add: fdiv_def fl_eval)

lemma gini_seven_tenths_step_8: "fdiv 3 2 = (3 / 2)"
  by (simp add: fdiv_def fl_eval)

lemma gini_seven_tenths_step_9: "fsub (6755399441055743 / 4503599627370496) (3 / 2) = (- (1 / 4503599627370496))"
  by (simp add: fsub_def fl_eval)

lemma gini_seven_tenths: "gini_coefficient [fl (7 / 10), fl (7 / 10)] = (- (1 / 4503599627370496))"
proof -
  have d: "fl (7 / 10) = (3152519739159347 / 4503599627370496)"
    by (simp add: fl_eval)
  show ?thesis
    unfolding d
    by (simp add: gini_coefficient_def all_zero_def weighted_sum_def py_sum_def Let_def
        gini_seven_tenths_step_0 gini_seven_tenths_step_1 gini_seven_tenths_step_2 gini_seven_tenths_step_3 gini_seven_tenths_step_4 gini_seven_tenths_step_5 gini_seven_tenths_step_6 gini_seven_tenths_step_7 gini_seven_tenths_step_8 gini_seven_tenths_step_9)
qed

text \<open>
  C9. The claim says that \<open>gini_coefficient\<close> returns 0 for any list of equal values
  (and is invariant under scaling). The code evaluates
  \<open>(2 * weighted_sum) / (n * total) - (n + 1) / n\<close> in double arithmetic, where the two
  terms, equal in exact arithmetic, need not round to the same double. For two families
  of wealth 0.1 each (one unit of arrows) the result is \<open>2^-52\<close>, about 2.2e-16, not 0;
  for two values 0.7 it is \<open>-2^-52\<close>, a negative Gini coefficient.
\<close>

theorem gini_equal_values_not_zero:
  "gini_coefficient [fl (1 / 10), fl (1 / 10)] = (1 / 4503599627370496)
   \<and> gini_coefficient [fl (7 / 10), fl (7 / 10)] = (- (1 / 4503599627370496))"
  by (rule conjI [OF gini_tenth gini_seven_tenths])

subsection \<open>Marriage\<close>

text \<open>
  C8, as amended. When the two villagers belong to two distinct existing families,
  \<open>form_marriage\<close> moves villager B alone: B is added to A's family and gets its id, and B
  is taken out of the member list of B's former family. That family is removed from the
  manager only when B was its last member; otherwise it stays in the manager with its
  remaining members.
\<close>

theorem form_marriage_moves_only_b:
  assumes a: "map_of (families fm) (v_family_id va) = Some fam_a"
    and b: "map_of (families fm) (v_family_id vb) = Some fam_b"
    and ne: "family_id fam_a \<noteq> family_id fam_b"
    and key: "family_id fam_b = v_family_id vb"
  shows "\<exists>fm1. form_marriage fm va vb =
             Inr (add_member fam_a (villager_id vb), fm1, vb\<lparr>v_family_id := family_id fam_a\<rparr>)
         \<and> villager_id vb \<in> set (member_ids (add_member fam_a (villager_id vb)))
         \<and> map_of (families fm1) (v_family_id va) = Some (add_member fam_a (villager_id vb))
         \<and> map_of (families fm1) (v_family_id vb) =
             (if member_ids (remove_member fam_b (villager_id vb)) = [] then None
              else Some (remove_member fam_b (villager_id vb)))
         \<and> member_ids (remove_member fam_b (villager_id vb)) =
             remove1 (villager_id vb) (member_ids fam_b)"
proof -
  from a b ne have keys: "v_family_id va \<noteq> v_family_id vb" by auto
  have fid_a: "family_id (add_member fam_a (villager_id vb)) = family_id fam_a"
    by (simp add: add_member_def)
  have fid_b: "family_id (remove_member fam_b (villager_id vb)) = family_id fam_b"
    by (simp add: remove_member_def Let_def)
  have mem: "villager_id vb \<in> set (member_ids (add_member fam_a (villager_id vb)))"
    by (simp add: add_member_def)
  have rem: "member_ids (remove_member fam_b (villager_id vb)) =
             remove1 (villager_id vb) (member_ids fam_b)"
    by (simp add: remove_member_def Let_def remove1_idem)
  let ?fs1 = "AList.update (v_family_id va) (add_member fam_a (villager_id vb))
                (AList.update (v_family_id vb) (remove_member fam_b (villager_id vb))
                   (families fm))"
  have look_b: "map_of ?fs1 (v_family_id vb) = Some (remove_member fam_b (villager_id vb))"
    using keys by (simp add: update_conv')
  have look_a: "map_of ?fs1 (v_family_id va) = Some (add_member fam_a (villager_id vb))"
    by (simp add: update_conv')
  show ?thesis
  proof (cases "member_ids (remove_member fam_b (villager_id vb)) = []")
    case True
    have "form_marriage fm va vb =
          Inr (add_member fam_a (villager_id vb),
               fm\<lparr>families := AList.delete (v_family_id vb) ?fs1\<rparr>,
               vb\<lparr>v_family_id := family_id fam_a\<rparr>)"
      using a b ne True look_b
      by (simp add: form_marriage_def Let_def fid_a fid_b key)
    moreover have "map_of (AList.delete (v_family_id vb) ?fs1) (v_family_id va) =
                   Some (add_member fam_a (villager_id vb))"
      using keys look_a by (simp add: delete_conv')
    moreover have "map_of (AList.delete (v_family_id vb) ?fs1) (v_family_id vb) = None"
      by (simp add: delete_conv')
    ultimately show ?thesis using True mem rem by simp
  next
    case False
    have "form_marriage fm va vb =
          Inr (add_member fam_a (villager_id vb), fm\<lparr>families := ?fs1\<rparr>,
               vb\<lparr>v_family_id := family_id fam_a\<rparr>)"
      using a b ne False
      by (simp add: form_marriage_def Let_def fid_a)
    then show ?thesis using False mem rem look_a look_b by simp
  qed
qed

text \<open>
  The claim as stated fails when B's family has another member: villager 1 of family 0
  marries villager 2 of family 1, whose other member is villager 3. Family 1 is still in
  the manager afterwards, with villager 3, who is not a member of family 0.
\<close>

theorem form_marriage_counterexample:
  "form_marriage \<lparr>families = [(0, built_family 0 [1]), (1, built_family 1 [2, 3])], next_id = 2\<rparr>
     (Villager_init 1 0) (Villager_init 2 1)
   = Inr ((built_family 0 [1])\<lparr>member_ids := [1, 2]\<rparr>,
          \<lparr>families = [(0, (built_family 0 [1])\<lparr>member_ids := [1, 2]\<rparr>),
                       (1, (built_family 1 [2, 3])\<lparr>member_ids := [3], head_of_household := 3\<rparr>)],
            next_id = 2\<rparr>,
          (Villager_init 2 1)\<lparr>v_family_id := 0\<rparr>)"
  by (simp add: form_marriage_def Let_def add_member_def remove_member_def built_family_def
      Villager_init_def)

theorem form_marriage_moves_only_b_witness:
  "map_of (families \<lparr>families = [(0, built_family 0 [1]), (1, built_family 1 [2, 3])],
                      next_id = 2\<rparr>) (v_family_id (Villager_init 1 0))
     = Some (built_family 0 [1])
   \<and> family_id (built_family 0 [1]) \<noteq> family_id (built_family 1 [2, 3])
   \<and> family_id (built_family 1 [2, 3]) = v_family_id (Villager_init 2 1)
   \<and> (\<exists>fm1. form_marriage
          \<lparr>families = [(0, built_family 0 [1]), (1, built_family 1 [2, 3])], next_id = 2\<rparr>
          (Villager_init 1 0) (Villager_init 2 1)
        = Inr (add_member (built_family 0 [1]) 2, fm1, (Villager_init 2 1)\<lparr>v_family_id := 0\<rparr>)
        \<and> map_of (families fm1) 1 = Some (remove_member (built_family 1 [2, 3]) 2))"
proof -
  let ?fm = "\<lparr>families = [(0, built_family 0 [1]), (1, built_family 1 [2, 3])], next_id = 2\<rparr>"
  have a: "map_of (families ?fm) (v_family_id (Villager_init 1 0)) = Some (built_family 0 [1])"
    by (simp add: Villager_init_def)
  have b: "map_of (families ?fm) (v_family_id (Villager_init 2 1)) = Some (built_family 1 [2, 3])"
    by (simp add: Villager_init_def)
  have ne: "family_id (built_family 0 [1]) \<noteq> family_id (built_family 1 [2, 3])"
    by (simp add: built_family_def)
  have key: "family_id (built_family 1 [2, 3]) = v_family_id (Villager_init 2 1)"
    by (simp add: built_family_def Villager_init_def)
  have rest: "member_ids (remove_member (built_family 1 [2, 3]) 2) \<noteq> []"
    by (simp add: remove_member_def built_family_def)
  from form_marriage_moves_only_b [OF a b ne key] rest a ne key
  show ?thesis
    by (auto simp: Villager_init_def built_family_def)
qed

subsection \<open>Subjective value of food\<close>

lemma catalog_food_plain:
  "list_all (\<lambda>(k, c). c_food_value c \<noteq> None \<longrightarrow>
      c_tool_type c = None \<and> c_warmth_value c = None \<and> c_heal_value c = None
      \<and> c_perish_days c \<noteq> None \<and> 0 \<le> the (c_perish_days c)) ITEM_CATALOG"
  by (simp add: ITEM_CATALOG_def food_entry_def tool_entry_def entry_def)

lemma food_item_plain:
  assumes "is_food t"
  shows "get_tool_type t = None" and "cat_warmth_value t = 0" and "cat_heal_value t = 0"
    and "0 \<le> cat_perish_days t"
proof -
  from assms obtain c where c: "catalog_get t = Some c" and f: "c_food_value c \<noteq> None"
    by (auto simp: is_food_def cat_food_value_def split: option.splits)
  from c have "map_of ITEM_CATALOG t = Some c" unfolding catalog_get_def .
  then have "(t, c) \<in> set ITEM_CATALOG" by (rule map_of_SomeD)
  with catalog_food_plain f
  have p: "c_tool_type c = None \<and> c_warmth_value c = None \<and> c_heal_value c = None
      \<and> c_perish_days c \<noteq> None \<and> 0 \<le> the (c_perish_days c)"
    unfolding list_all_iff by blast
  from p c show "get_tool_type t = None" by (simp add: get_tool_type_def)
  from p c show "cat_warmth_value t = 0" by (simp add: cat_warmth_value_def)
  from p c show "cat_heal_value t = 0" by (simp add: cat_heal_value_def)
  from p c show "0 \<le> cat_perish_days t" by (auto simp: cat_perish_days_def)
qed

lemma shelf_factor_pos: "is_food t \<Longrightarrow> 0 < shelf_factor t"
proof -
  assume "is_food t"
  then have d: "0 \<le> cat_perish_days t" by (rule food_item_plain(4))
  then have "0 \<le> min 1 (real_of_int (cat_perish_days t) / 60)" by simp
  then have "0 < 7 / 10 + (3 / 10) * min 1 (real_of_int (cat_perish_days t) / 60)"
    by (intro add_pos_nonneg mult_nonneg_nonneg) simp_all
  then show ?thesis by (simp add: shelf_factor_def Let_def)
qed

lemma diminish_factor_pos: "0 < diminish_factor v t family_inv"
  by (simp add: diminish_factor_def Let_def TRADE_DIMINISHING_SURPLUS_FACTOR_def add_pos_pos)

lemma skill_factor_pos: "0 < skill_factor v t"
  by (simp add: skill_factor_def Let_def max_def split: option.splits)

lemma food_base_pos: "is_food t \<Longrightarrow> 0 < food_base v t family_inv"
  unfolding food_base_def
  by (intro mult_pos_pos shelf_factor_pos diminish_factor_pos skill_factor_pos)
     (simp_all add: is_food_def)

lemma subjective_value_food:
  assumes food: "is_food t" and h: "need_sat v ''hunger'' = Inr hs"
  shows "subjective_value v t qty family_inv =
         Inr (max (1 / 100) (food_base v t family_inv * hunger_mult hs * qty))"
proof -
  from food have pos: "cat_food_value t > 0" by (simp add: is_food_def)
  have f: "food_stage v t b =
           Inr (cat_food_value t * hunger_mult hs * 2 * shelf_factor t)" for b
    using pos h by (simp add: food_stage_def)
  have tl: "tool_stage v t family_inv b = b" for b
    by (simp add: tool_stage_def food_item_plain(1) [OF food])
  have w: "warmth_stage v t b = Inr b" for b
    by (simp add: warmth_stage_def food_item_plain(2) [OF food])
  have m: "medicine_stage v t b = Inr b" for b
    by (simp add: medicine_stage_def food_item_plain(3) [OF food])
  show ?thesis
    by (simp add: subjective_value_def f tl w m food_base_def mult_ac)
qed

lemma need_sat_set:
  assumes "map_of (needs v) nm \<noteq> None"
  shows "need_sat (set_satisfaction v nm s) nm = Inr s"
proof -
  have "map_of (map (\<lambda>(k, n). if k = nm then (k, n\<lparr>satisfaction := s\<rparr>) else (k, n)) ns) nm =
        map_option (\<lambda>n. n\<lparr>satisfaction := s\<rparr>) (map_of ns nm)" for ns :: NeedSystem
    by (induction ns) auto
  with assms show ?thesis
    by (auto simp: need_sat_def set_satisfaction_def)
qed

lemma food_base_set: "food_base (set_satisfaction v nm s) t family_inv = food_base v t family_inv"
  by (simp add: food_base_def set_satisfaction_def diminish_factor_def owned_quantity_def
      skill_factor_def split: option.splits)

lemma hunger_mult_antimono: "h1 \<le> h2 \<Longrightarrow> hunger_mult h2 \<le> hunger_mult h1"
  by (simp add: hunger_mult_def TRADE_VALUE_FOOD_HUNGRY_MULTIPLIER_def)

lemma hunger_mult_strict: "h1 < h2 \<Longrightarrow> h1 < 1 / 2 \<Longrightarrow> hunger_mult h2 < hunger_mult h1"
  by (simp add: hunger_mult_def TRADE_VALUE_FOOD_HUNGRY_MULTIPLIER_def)

lemma hunger_mult_flat: "1 / 2 \<le> h \<Longrightarrow> hunger_mult h = 1"
  by (simp add: hunger_mult_def)

text \<open>
  C6, as amended. For a food item, with everything but the hunger satisfaction held fixed,
  the subjective value never decreases when the hunger satisfaction decreases; it does not
  change while the hunger satisfaction stays at 0.5 or above, the hunger multiplier being
  applied only under the gate \<open>hunger_sat < 0.5\<close>; and it is strictly larger at a hunger
  satisfaction between 0 and 0.49 than at any hunger satisfaction at least 0.01 higher,
  when the value is above the floor 0.01 and the quantity is at most 1000000. (The margins
  keep the strict part clear of rounding: two hunger satisfactions one rounding unit apart
  can yield the same double.)
\<close>

theorem subjective_value_food_hunger_monotone:
  assumes food: "is_food t" and key: "map_of (needs v) ''hunger'' \<noteq> None"
    and lt: "h1 < h2"
  shows "\<exists>x1 x2.
           subjective_value (set_satisfaction v ''hunger'' h1) t qty family_inv = Inr x1
         \<and> subjective_value (set_satisfaction v ''hunger'' h2) t qty family_inv = Inr x2
         \<and> x2 \<le> x1
         \<and> (1 / 2 \<le> h1 \<longrightarrow> x1 = x2)
         \<and> (0 \<le> h1 \<and> h1 \<le> 49 / 100 \<and> h1 + 1 / 100 \<le> h2
              \<and> 1 / 100 < x1 \<and> qty \<le> 1000000 \<longrightarrow> x2 < x1)"
proof -
  let ?K = "food_base v t family_inv"
  let ?x1 = "max (1 / 100) (?K * hunger_mult h1 * qty)"
  let ?x2 = "max (1 / 100) (?K * hunger_mult h2 * qty)"
  have K: "0 < ?K" by (rule food_base_pos [OF food])
  have v1: "subjective_value (set_satisfaction v ''hunger'' h1) t qty family_inv = Inr ?x1"
    using subjective_value_food [OF food need_sat_set [OF key], of h1 qty family_inv]
    by (simp add: food_base_set)
  have v2: "subjective_value (set_satisfaction v ''hunger'' h2) t qty family_inv = Inr ?x2"
    using subjective_value_food [OF food need_sat_set [OF key], of h2 qty family_inv]
    by (simp add: food_base_set)
  have m1: "1 \<le> hunger_mult h1" and m2: "1 \<le> hunger_mult h2"
    by (simp_all add: hunger_mult_def TRADE_VALUE_FOOD_HUNGRY_MULTIPLIER_def)
  have mono: "hunger_mult h2 \<le> hunger_mult h1"
    using lt by (intro hunger_mult_antimono) simp
  have le: "?x2 \<le> ?x1"
  proof (cases "0 \<le> qty")
    case True
    from mono K have "?K * hunger_mult h2 \<le> ?K * hunger_mult h1"
      by (simp add: mult_left_mono)
    then have "?K * hunger_mult h2 * qty \<le> ?K * hunger_mult h1 * qty"
      using True by (rule mult_right_mono)
    then show ?thesis by (rule max.mono [OF order_refl])
  next
    case False
    then have q: "qty < 0" by simp
    from K m1 have "0 < ?K * hunger_mult h1" by (intro mult_pos_pos) simp_all
    then have n1: "?K * hunger_mult h1 * qty < 0" using q by (rule mult_pos_neg)
    from K m2 have "0 < ?K * hunger_mult h2" by (intro mult_pos_pos) simp_all
    then have n2: "?K * hunger_mult h2 * qty < 0" using q by (rule mult_pos_neg)
    from n1 n2 show ?thesis by simp
  qed
  have flat: "1 / 2 \<le> h1 \<longrightarrow> ?x1 = ?x2"
    using lt by (simp add: hunger_mult_flat)
  have strict: "0 \<le> h1 \<and> h1 \<le> 49 / 100 \<and> h1 + 1 / 100 \<le> h2
              \<and> 1 / 100 < ?x1 \<and> qty \<le> 1000000 \<longrightarrow> ?x2 < ?x1"
  proof
    assume a: "0 \<le> h1 \<and> h1 \<le> 49 / 100 \<and> h1 + 1 / 100 \<le> h2
              \<and> 1 / 100 < ?x1 \<and> qty \<le> 1000000"
    then have low: "h1 < 1 / 2" and above: "1 / 100 < ?x1" by simp_all
    from above have big: "1 / 100 < ?K * hunger_mult h1 * qty"
      by (simp only: less_max_iff_disj less_irrefl simp_thms)
    from K m1 have p1: "0 < ?K * hunger_mult h1" by (intro mult_pos_pos) simp_all
    have qpos: "0 < qty"
    proof (rule ccontr)
      assume "\<not> 0 < qty"
      then have q0: "qty \<le> 0" by simp
      from p1 have "0 \<le> ?K * hunger_mult h1" by simp
      then have "?K * hunger_mult h1 * qty \<le> 0"
        using q0 by (rule mult_nonneg_nonpos)
      with big show False by simp
    qed
    from lt low have "hunger_mult h2 < hunger_mult h1" by (rule hunger_mult_strict)
    then have "?K * hunger_mult h2 < ?K * hunger_mult h1"
      using K by (rule mult_strict_left_mono)
    then have lt2: "?K * hunger_mult h2 * qty < ?K * hunger_mult h1 * qty"
      using qpos by (rule mult_strict_right_mono)
    from big have "?x1 = ?K * hunger_mult h1 * qty" by (simp add: max_def)
    moreover from big lt2 have "?x2 < ?K * hunger_mult h1 * qty" by (simp add: max_def)
    ultimately show "?x2 < ?x1" by simp
  qed
  from v1 v2 le flat strict show ?thesis by blast
qed

text \<open>
  The claim as stated fails between 0.9 and 0.5: one unit of bread is worth 1.45 to a
  villager at hunger satisfaction 0.9 and at 0.6 alike.
\<close>

theorem subjective_value_flat_counterexample:
  "subjective_value (set_satisfaction (Villager_init 1 0) ''hunger'' (9 / 10)) ''bread'' 1 None
     = Inr (29 / 20)
   \<and> subjective_value (set_satisfaction (Villager_init 1 0) ''hunger'' (6 / 10)) ''bread'' 1 None
     = Inr (29 / 20)"
proof -
  have food: "is_food ''bread''"
    by (simp add: is_food_def cat_food_value_def catalog_get_def ITEM_CATALOG_def
        food_entry_def entry_def)
  have key: "map_of (needs (Villager_init 1 0)) ''hunger'' \<noteq> None"
    by (simp add: Villager_init_def NeedSystem_init_def)
  have base: "food_base (Villager_init 1 0) ''bread'' None = 29 / 20"
    by (simp add: food_base_def cat_food_value_def shelf_factor_def cat_perish_days_def
        diminish_factor_def owned_quantity_def skill_factor_def skill_map_def
        catalog_get_def ITEM_CATALOG_def food_entry_def entry_def Villager_init_def)
  have v: "subjective_value (set_satisfaction (Villager_init 1 0) ''hunger'' h) ''bread'' 1 None
           = Inr (max (1 / 100) (29 / 20 * hunger_mult h))" for h
    using subjective_value_food [OF food need_sat_set [OF key], of h 1 None]
    by (simp add: food_base_set base)
  show ?thesis by (simp add: v hunger_mult_def)
qed

theorem subjective_value_food_hunger_monotone_witness:
  "is_food ''bread'' \<and> map_of (needs (Villager_init 1 0)) ''hunger'' \<noteq> None
   \<and> subjective_value (set_satisfaction (Villager_init 1 0) ''hunger'' (1 / 10)) ''bread'' 1 None
       = Inr (377 / 100)
   \<and> subjective_value (set_satisfaction (Villager_init 1 0) ''hunger'' (4 / 10)) ''bread'' 1 None
       = Inr (203 / 100)
   \<and> subjective_value (set_satisfaction (Villager_init 1 0) ''hunger'' (1 / 2)) ''bread'' 1 None
       = Inr (29 / 20)
   \<and> subjective_value (set_satisfaction (Villager_init 1 0) ''hunger'' (9 / 10)) ''bread'' 1 None
       = Inr (29 / 20)
   \<and> (203 / 100 :: real) < 377 / 100"
proof -
  have food: "is_food ''bread''"
    by (simp add: is_food_def cat_food_value_def catalog_get_def ITEM_CATALOG_def
        food_entry_def entry_def)
  have key: "map_of (needs (Villager_init 1 0)) ''hunger'' \<noteq> None"
    by (simp add: Villager_init_def NeedSystem_init_def)
  have base: "food_base (Villager_init 1 0) ''bread'' None = 29 / 20"
    by (simp add: food_base_def cat_food_value_def shelf_factor_def cat_perish_days_def
        diminish_factor_def owned_quantity_def skill_factor_def skill_map_def
        catalog_get_def ITEM_CATALOG_def food_entry_def entry_def Villager_init_def)
  have v: "subjective_value (set_satisfaction (Villager_init 1 0) ''hunger'' h) ''bread'' 1 None
           = Inr (max (1 / 100) (29 / 20 * hunger_mult h))" for h
    using subjective_value_food [OF food need_sat_set [OF key], of h 1 None]
    by (simp add: food_base_set base)
  have v1: "subjective_value (set_satisfaction (Villager_init 1 0) ''hunger'' (1 / 10)) ''bread'' 1
              None = Inr (377 / 100)"
    by (simp add: v hunger_mult_def TRADE_VALUE_FOOD_HUNGRY_MULTIPLIER_def)
  have v2: "subjective_value (set_satisfaction (Villager_init 1 0) ''hunger'' (4 / 10)) ''bread'' 1
              None = Inr (203 / 100)"
    by (simp add: v hunger_mult_def TRADE_VALUE_FOOD_HUNGRY_MULTIPLIER_def)
  have v3: "subjective_value (set_satisfaction (Villager_init 1 0) ''hunger'' (1 / 2)) ''bread'' 1
              None = Inr (29 / 20)"
    by (simp add: v hunger_mult_def)
  have lt: "(1 / 10 :: real) < 4 / 10" and lt': "(1 / 2 :: real) < 9 / 10" by simp_all
  from subjective_value_food_hunger_monotone [OF food key lt, of 1 None]
  obtain x1 x2 where
    e1: "subjective_value (set_satisfaction (Villager_init 1 0) ''hunger'' (1 / 10)) ''bread'' 1
           None = Inr x1"
    and e2: "subjective_value (set_satisfaction (Villager_init 1 0) ''hunger'' (4 / 10)) ''bread'' 1
           None = Inr x2"
    and strict: "0 \<le> (1 / 10 :: real) \<and> (1 / 10 :: real) \<le> 49 / 100
           \<and> (1 / 10 :: real) + 1 / 100 \<le> 4 / 10
           \<and> 1 / 100 < x1 \<and> (1 :: real) \<le> 1000000 \<longrightarrow> x2 < x1"
    by blast
  from e1 v1 have x1: "x1 = 377 / 100" by simp
  from e2 v2 have x2: "x2 = 203 / 100" by simp
  from strict have s: "(203 / 100 :: real) < 377 / 100"
    unfolding x1 x2 by simp
  from subjective_value_food_hunger_monotone [OF food key lt', of 1 None]
  obtain y1 y2 where
    f1: "subjective_value (set_satisfaction (Villager_init 1 0) ''hunger'' (1 / 2)) ''bread'' 1
           None = Inr y1"
    and f2: "subjective_value (set_satisfaction (Villager_init 1 0) ''hunger'' (9 / 10)) ''bread'' 1
           None = Inr y2"
    and flat: "(1 / 2 :: real) \<le> 1 / 2 \<longrightarrow> y1 = y2"
    by blast
  from f1 v3 have "y1 = 29 / 20" by simp
  with flat have "y2 = 29 / 20" by simp
  with f2 have v4: "subjective_value (set_satisfaction (Villager_init 1 0) ''hunger'' (9 / 10))
       ''bread'' 1 None = Inr (29 / 20)" by simp
  from food key v1 v2 v3 v4 s show ?thesis by simp
qed

subsection \<open>Offers\<close>

lemma rescale_keys:
  "map fst (rescale_requesting amb ov rv requested) = map fst requested"
  by (simp add: rescale_requesting_def Let_def comp_def case_prod_unfold)

lemma rescale_le:
  "list_all2 (\<lambda>after before. fst after = fst before \<and> snd after \<le> snd before)
     (rescale_requesting amb ov rv requested) requested"
  by (simp add: rescale_requesting_def Let_def list_all2_map1 list_all2_same case_prod_unfold)

text \<open>
  C7. Every offer that \<open>generate_offer\<close> returns requests the item types of the draft
  made before the ambition-driven rescaling, in the same order, and each final requested
  quantity is at most the quantity requested before that step, whatever the ambition.
\<close>

theorem generate_offer_never_raises_request:
  assumes "generate_offer tool_order villager partner villager_inv est = Inr (Some offer)"
  shows "\<exists>offered0 requested0 offer_value request_value.
           draft_offer tool_order villager partner villager_inv est =
             Inr (Some (offered0, requested0, offer_value, request_value))
         \<and> map fst (requesting offer) = map fst requested0
         \<and> list_all2 (\<lambda>after before. fst after = fst before \<and> snd after \<le> snd before)
             (requesting offer) requested0"
proof (cases "draft_offer tool_order villager partner villager_inv est")
  case (Inl e)
  with assms show ?thesis by (simp add: generate_offer_def)
next
  case (Inr r)
  show ?thesis
  proof (cases r)
    case None
    with Inr assms show ?thesis by (simp add: generate_offer_def)
  next
    case (Some d)
    obtain offered0 requested0 ov rv where d: "d = (offered0, requested0, ov, rv)"
      by (cases d)
    from assms Inr Some d
    have "requesting offer = rescale_requesting (ambition (traits villager)) ov rv requested0"
      by (auto simp: generate_offer_def)
    with Inr Some d show ?thesis
      by (simp add: rescale_keys rescale_le)
  qed
qed

lemma food_items_eval:
  "food_items = [''berries'', ''raw_meat'', ''cooked_meat'', ''dried_meat'', ''grain'', ''bread'',
     ''fish'', ''dried_fish'', ''vegetables'']"
  by (simp add: food_items_def ITEM_CATALOG_def food_entry_def tool_entry_def entry_def
      del: not_None_eq)

lemmas trade_eval = get_surplus_def get_deficits_def draft_offer_def generate_offer_def
  rescale_requesting_def subjective_value_def food_stage_def tool_stage_def warmth_stage_def
  medicine_stage_def diminish_factor_def owned_quantity_def skill_factor_def skill_map_def
  hunger_mult_def shelf_factor_def cat_weight_def cat_food_value_def cat_perish_days_def
  cat_warmth_value_def cat_heal_value_def need_sat_def get_tool_type_def
  first_item_with_tool_def has_tool_type_def get_best_tool_def better_tool_def tool_type_def
  has_def total_food_value_def food_items_eval food_value_def Villager_init_def default_traits_def
  NeedSystem_init_def mk_need_def BASE_DAILY_FOOD_NEED_def TRADE_SURPLUS_DAYS_THRESHOLD_def
  TRADE_DEFICIT_DAYS_THRESHOLD_def TRADE_PERSONALITY_MARGIN_def
  TRADE_VALUE_FOOD_HUNGRY_MULTIPLIER_def TRADE_DIMINISHING_SURPLUS_FACTOR_def

lemma ex_surplus:
  "get_surplus \<lparr>items = [(''timber'', [new_item ''timber'' (11 / 2) (1 / 2)])],
        capacity = 200, owner_type = ''family''\<rparr> = [(''timber'', 1 / 2)]"
  by (simp add: trade_eval inventory_eval Let_def)

lemma ex_pde:
  "get_deficits [''axe'', ''knife'', ''spear'', ''farming'', ''fishing''] (Villager_init 2 1)
     \<lparr>items = [(''grain'', [new_item ''grain'' 10 (1 / 2)])],
        capacity = 999, owner_type = ''personal''\<rparr>
   = Inr [(''stone_axe'', 1), (''stone_knife'', 1), (''wooden_spear'', 1), (''hoe'', 1),
          (''fishing_rod'', 1)]"
  by (simp add: trade_eval inventory_eval Let_def)

lemma ex_mydef:
  "get_deficits [''axe'', ''knife'', ''spear'', ''farming'', ''fishing''] (Villager_init 1 0)
     \<lparr>items = [(''timber'', [new_item ''timber'' (11 / 2) (1 / 2)])],
        capacity = 200, owner_type = ''family''\<rparr>
   = Inr [(''grain'', 45 / 8), (''stone_axe'', 1), (''stone_knife'', 1), (''wooden_spear'', 1),
          (''hoe'', 1), (''fishing_rod'', 1)]"
  by (simp add: trade_eval inventory_eval Let_def)

lemma ex_offer_value:
  "subjective_value (Villager_init 2 1) ''timber'' (1 / 4)
     (Some \<lparr>items = [(''grain'', [new_item ''grain'' 10 (1 / 2)])],
        capacity = 999, owner_type = ''personal''\<rparr>) = Inr (5 / 4)"
  by (simp add: trade_eval inventory_eval Let_def)

lemma ex_request_value:
  "subjective_value (Villager_init 1 0) ''grain'' 5
     (Some \<lparr>items = [(''timber'', [new_item ''timber'' (11 / 2) (1 / 2)])],
        capacity = 200, owner_type = ''family''\<rparr>) = Inr 8"
  by (simp add: trade_eval inventory_eval Let_def)

lemma quantity_new_item: "quantity (new_item t q ql) = q"
  by (simp add: new_item_def)

lemma ex_draft:
  "draft_offer [''axe'', ''knife'', ''spear'', ''farming'', ''fishing'']
     (Villager_init 1 0) (Villager_init 2 1)
     \<lparr>items = [(''timber'', [new_item ''timber'' (11 / 2) (1 / 2)])],
        capacity = 200, owner_type = ''family''\<rparr>
     \<lparr>items = [(''grain'', [new_item ''grain'' 10 (1 / 2)])],
        capacity = 999, owner_type = ''personal''\<rparr>
   = Inr (Some ([(''timber'', 1 / 4)], [(''grain'', 5)], 5 / 4, 8))"
  unfolding draft_offer_def ex_surplus ex_pde ex_mydef Let_def
  by (simp add: ex_offer_value ex_request_value total_of_def quantity_new_item)

theorem generate_offer_never_raises_request_witness:
  "generate_offer [''axe'', ''knife'', ''spear'', ''farming'', ''fishing'']
     (Villager_init 1 0) (Villager_init 2 1)
     \<lparr>items = [(''timber'', [new_item ''timber'' (11 / 2) (1 / 2)])],
        capacity = 200, owner_type = ''family''\<rparr>
     \<lparr>items = [(''grain'', [new_item ''grain'' 10 (1 / 2)])],
        capacity = 999, owner_type = ''personal''\<rparr>
   = Inr (Some \<lparr>offering = [(''timber'', 1 / 4)], requesting = [(''grain'', 25 / 32)],
                offerer_id = 1, target_id = 2\<rparr>)
   \<and> list_all2 (\<lambda>after before. fst after = fst before \<and> snd after \<le> snd before)
       [(''grain'', 25 / 32)] [(''grain'', 5 :: real)]"
proof -
  let ?vinv = "\<lparr>items = [(''timber'', [new_item ''timber'' (11 / 2) (1 / 2)])],
        capacity = 200, owner_type = ''family''\<rparr>"
  let ?est = "\<lparr>items = [(''grain'', [new_item ''grain'' 10 (1 / 2)])],
        capacity = 999, owner_type = ''personal''\<rparr>"
  let ?order = "[''axe'', ''knife'', ''spear'', ''farming'', ''fishing'']"
  let ?offer = "\<lparr>offering = [(''timber'', 1 / 4)], requesting = [(''grain'', 25 / 32)],
                offerer_id = 1, target_id = 2\<rparr>"
  have g: "generate_offer ?order (Villager_init 1 0) (Villager_init 2 1) ?vinv ?est
           = Inr (Some ?offer)"
    unfolding generate_offer_def ex_draft
    by (simp add: rescale_requesting_def TRADE_PERSONALITY_MARGIN_def Villager_init_def
        default_traits_def)
  from generate_offer_never_raises_request [OF g]
  have "list_all2 (\<lambda>after before. fst after = fst before \<and> snd after \<le> snd before)
          (requesting ?offer) [(''grain'', 5 :: real)]"
    by (simp add: ex_draft)
  with g show ?thesis by simp
qed

subsection \<open>Tool availability\<close>

lemma first_tool_None:
  "first_tool pinv family_inv tts = None \<longleftrightarrow>
   (\<forall>tt \<in> set tts. lookup_tool pinv family_inv tt = None)"
  by (induction tts) (simp_all split: option.splits)

lemma first_tool_found:
  assumes "\<forall>c \<in> set pre. lookup_tool pinv family_inv c = None"
    and "lookup_tool pinv family_inv tt = Some tool"
  shows "first_tool pinv family_inv (pre @ tt # post) = Some tool"
  using assms(1)
proof (induction pre)
  case Nil
  show ?case by (simp add: assms(2))
next
  case (Cons c cs)
  have c: "lookup_tool pinv family_inv c = None" using Cons.prems by simp
  have rest: "\<forall>c \<in> set cs. lookup_tool pinv family_inv c = None" using Cons.prems by simp
  have "first_tool pinv family_inv (cs @ tt # post) = Some tool"
    by (rule Cons.IH [OF rest])
  then show ?case by (simp add: c)
qed

text \<open>
  C5, as amended. For an activity with a non-empty list of required tool categories, the
  feasibility gate admits the activity only if a functional tool is found, in the
  villager's personal inventory or the family inventory, for at least one of the required
  categories. The categories are tried in list order and the search stops at the first one
  that has a tool: the categories after it are not examined, and the activity is evaluated
  as the same activity without tool requirement is, with the quality of that tool in the
  score.
\<close>

theorem evaluate_activity_needs_some_tool:
  "(required_tools activity \<noteq> []
      \<and> evaluate_activity score villager activity world_state remaining_hours \<noteq> None \<longrightarrow>
        (\<exists>tt \<in> set (required_tools activity).
           lookup_tool (personal_inventory villager)
             (map_of (family_inventories world_state) (v_family_id villager)) tt \<noteq> None))
   \<and> (required_tools activity = pre @ tt # post
      \<and> (\<forall>c \<in> set pre.
           lookup_tool (personal_inventory villager)
             (map_of (family_inventories world_state) (v_family_id villager)) c = None)
      \<and> lookup_tool (personal_inventory villager)
           (map_of (family_inventories world_state) (v_family_id villager)) tt = Some tool \<longrightarrow>
        evaluate_activity score villager activity world_state remaining_hours =
        evaluate_activity (\<lambda>tool_q. score (tool_quality tool)) villager
          (activity\<lparr>required_tools := []\<rparr>) world_state remaining_hours)"
proof (intro conjI impI)
  let ?pinv = "personal_inventory villager"
  let ?finv = "map_of (family_inventories world_state) (v_family_id villager)"
  assume a: "required_tools activity \<noteq> []
      \<and> evaluate_activity score villager activity world_state remaining_hours \<noteq> None"
  then have ne: "required_tools activity \<noteq> []"
    and adm: "evaluate_activity score villager activity world_state remaining_hours \<noteq> None"
    by simp_all
  have "first_tool ?pinv ?finv (required_tools activity) \<noteq> None"
  proof
    assume "first_tool ?pinv ?finv (required_tools activity) = None"
    with ne have "evaluate_activity score villager activity world_state remaining_hours = None"
      by (simp add: evaluate_activity_def Let_def)
    with adm show False by simp
  qed
  then show "\<exists>tt \<in> set (required_tools activity). lookup_tool ?pinv ?finv tt \<noteq> None"
    by (simp add: first_tool_None)
next
  let ?pinv = "personal_inventory villager"
  let ?finv = "map_of (family_inventories world_state) (v_family_id villager)"
  assume a: "required_tools activity = pre @ tt # post
      \<and> (\<forall>c \<in> set pre. lookup_tool ?pinv ?finv c = None)
      \<and> lookup_tool ?pinv ?finv tt = Some tool"
  then have req: "required_tools activity = pre @ tt # post"
    and none: "\<forall>c \<in> set pre. lookup_tool ?pinv ?finv c = None"
    and some: "lookup_tool ?pinv ?finv tt = Some tool"
    by simp_all
  have ft: "first_tool ?pinv ?finv (required_tools activity) = Some tool"
    unfolding req by (rule first_tool_found [OF none some])
  from req have ne: "required_tools activity \<noteq> []" by simp
  show "evaluate_activity score villager activity world_state remaining_hours =
        evaluate_activity (\<lambda>tool_q. score (tool_quality tool)) villager
          (activity\<lparr>required_tools := []\<rparr>) world_state remaining_hours"
    by (simp add: evaluate_activity_def Let_def ft ne)
qed

text \<open>
  The claim as stated fails for \<open>build_shelter\<close>, which requires an axe and a
  construction tool: a villager who holds only a stone axe is admitted, with nothing of the
  construction category in the personal or the family inventory.
\<close>

theorem build_shelter_with_axe_only_counterexample:
  "lookup_tool
     (Some \<lparr>items = [(''stone_axe'', [create_item ''stone_axe'' 1 (1 / 2)])], capacity = 30,
            owner_type = ''personal''\<rparr>)
     None ''construction'' = None
   \<and> evaluate_activity unit_score
       ((Villager_init 1 0)\<lparr>personal_inventory :=
          Some \<lparr>items = [(''stone_axe'', [create_item ''stone_axe'' 1 (1 / 2)])], capacity = 30,
                 owner_type = ''personal''\<rparr>\<rparr>)
       build_shelter
       \<lparr>season = ''summer'', find_resource = no_resources, family_inventories = []\<rparr> 10
     = Some (1, \<lparr>activity_name = ''build_shelter'', target_resource_id = None,
                  target_villager_id = None, planned_hours = 8, target_position = None\<rparr>)"
  by (simp add: evaluate_activity_def lookup_tool_def get_best_tool_def better_tool_def
      tool_type_def get_tool_type_def tool_quality_def is_tool_def create_item_def
      build_shelter_def Villager_init_def catalog_get_def ITEM_CATALOG_def tool_entry_def
      food_entry_def entry_def Let_def unit_score_def)

theorem evaluate_activity_needs_some_tool_witness:
  "required_tools build_shelter = [''axe''] @ ''construction'' # []
   \<and> lookup_tool
       (Some \<lparr>items = [(''fishing_rod'', [create_item ''fishing_rod'' 1 (1 / 2)]),
                        (''hammer'', [create_item ''hammer'' 1 (4 / 5)])],
              capacity = 30, owner_type = ''personal''\<rparr>)
       None ''axe'' = None
   \<and> lookup_tool
       (Some \<lparr>items = [(''fishing_rod'', [create_item ''fishing_rod'' 1 (1 / 2)]),
                        (''hammer'', [create_item ''hammer'' 1 (4 / 5)])],
              capacity = 30, owner_type = ''personal''\<rparr>)
       None ''construction'' = Some (create_item ''hammer'' 1 (4 / 5))
   \<and> tool_quality (create_item ''hammer'' 1 (4 / 5)) = 4 / 5
   \<and> evaluate_activity quality_score
       ((Villager_init 1 0)\<lparr>personal_inventory :=
          Some \<lparr>items = [(''fishing_rod'', [create_item ''fishing_rod'' 1 (1 / 2)]),
                          (''hammer'', [create_item ''hammer'' 1 (4 / 5)])],
                 capacity = 30, owner_type = ''personal''\<rparr>\<rparr>)
       build_shelter
       \<lparr>season = ''summer'', find_resource = no_resources, family_inventories = []\<rparr> 10
     = Some (4 / 5, \<lparr>activity_name = ''build_shelter'', target_resource_id = None,
                  target_villager_id = None, planned_hours = 8, target_position = None\<rparr>)"
proof -
  let ?pinv = "\<lparr>items = [(''fishing_rod'', [create_item ''fishing_rod'' 1 (1 / 2)]),
                        (''hammer'', [create_item ''hammer'' 1 (4 / 5)])],
              capacity = 30, owner_type = ''personal''\<rparr>"
  let ?v = "(Villager_init 1 0)\<lparr>personal_inventory := Some ?pinv\<rparr>"
  let ?ws = "\<lparr>season = ''summer'', find_resource = no_resources, family_inventories = []\<rparr>"
  let ?hammer = "create_item ''hammer'' 1 (4 / 5)"
  have req: "required_tools build_shelter = [''axe''] @ ''construction'' # []"
    by (simp add: build_shelter_def)
  have l1: "lookup_tool (Some ?pinv) None ''axe'' = None"
    by (simp add: lookup_tool_def get_best_tool_def better_tool_def tool_type_def
        get_tool_type_def create_item_def catalog_get_def ITEM_CATALOG_def tool_entry_def
        food_entry_def entry_def)
  have l2: "lookup_tool (Some ?pinv) None ''construction'' = Some ?hammer"
    by (simp add: lookup_tool_def get_best_tool_def better_tool_def tool_type_def
        get_tool_type_def create_item_def catalog_get_def ITEM_CATALOG_def tool_entry_def
        food_entry_def entry_def)
  have q: "tool_quality ?hammer = 4 / 5"
    by (simp add: tool_quality_def is_tool_def create_item_def catalog_get_def ITEM_CATALOG_def
        tool_entry_def food_entry_def entry_def)
  have pv: "personal_inventory ?v = Some ?pinv"
    and fv: "map_of (family_inventories ?ws) (v_family_id ?v) = None"
    by simp_all
  have none: "\<forall>c \<in> set [''axe''].
      lookup_tool (personal_inventory ?v) (map_of (family_inventories ?ws) (v_family_id ?v)) c
      = None"
    unfolding pv fv using l1 by simp
  have some: "lookup_tool (personal_inventory ?v)
      (map_of (family_inventories ?ws) (v_family_id ?v)) ''construction'' = Some ?hammer"
    unfolding pv fv by (rule l2)
  have plain: "evaluate_activity (\<lambda>tool_q. quality_score (tool_quality ?hammer)) ?v
      (build_shelter\<lparr>required_tools := []\<rparr>) ?ws 10
    = Some (4 / 5, \<lparr>activity_name = ''build_shelter'', target_resource_id = None,
                  target_villager_id = None, planned_hours = 8, target_position = None\<rparr>)"
    by (simp add: evaluate_activity_def build_shelter_def Let_def quality_score_def q)
  from evaluate_activity_needs_some_tool
         [of build_shelter quality_score ?v ?ws 10 "[''axe'']" "''construction''" "[]" ?hammer]
  have "evaluate_activity quality_score ?v build_shelter ?ws 10 =
        evaluate_activity (\<lambda>tool_q. quality_score (tool_quality ?hammer)) ?v
          (build_shelter\<lparr>required_tools := []\<rparr>) ?ws 10"
    using req none some by blast
  with plain have "evaluate_activity quality_score ?v build_shelter ?ws 10
    = Some (4 / 5, \<lparr>activity_name = ''build_shelter'', target_resource_id = None,
                  target_villager_id = None, planned_hours = 8, target_position = None\<rparr>)"
    by simp
  with req l1 l2 q show ?thesis by simp
qed

end
